theory Spec2Isabelle
  imports Complex_Main
begin

section \<open>Python values and string helpers\<close>

text \<open>
  The two scripts are Python. Exceptions are values of \<open>py_error\<close>; a function that can
  raise returns \<open>py_error + 'a\<close> with \<open>Inl\<close> for the exception.
\<close>

datatype py_error =
  TypeError | ValueError | KeyError | IndexError | AttributeError | OSError | OverflowError
  | RequestException | JSONDecodeError

text \<open>
  A cell of a pandas row: a missing value (\<open>NaN\<close> or \<open>None\<close>), a string, an integer, a
  finite float (its exact value, a rational), or one of the two infinite floats. A row is
  a map from column names to cells; a column the frame does not have is \<open>None\<close> of the map.
\<close>

datatype cell = NaN | Str string | PyInt int | PyFloat rat | PosInf | NegInf

type_synonym row = "string \<Rightarrow> cell option"

text \<open>\<open>sep.join(parts)\<close> on a list of strings.\<close>

fun join :: "string \<Rightarrow> string list \<Rightarrow> string" where
  "join sep [] = []"
| "join sep [x] = x"
| "join sep (x # y # ys) = x @ sep @ join sep (y # ys)"

text \<open>\<open>sep.join(parts)\<close> on a list of Python values: a non-string item raises TypeError.\<close>

fun the_strs :: "cell list \<Rightarrow> py_error + string list" where
  "the_strs [] = Inr []"
| "the_strs (Str s # cs) = (case the_strs cs of Inl e \<Rightarrow> Inl e | Inr ss \<Rightarrow> Inr (s # ss))"
| "the_strs (c # cs) = Inl TypeError"

definition str_join :: "string \<Rightarrow> cell list \<Rightarrow> py_error + string" where
  "str_join sep parts = (case the_strs parts of Inl e \<Rightarrow> Inl e | Inr ss \<Rightarrow> Inr (join sep ss))"

text \<open>Decimal digits of a natural number and of an integer, as \<open>str(n)\<close> prints them.\<close>

definition digit_char :: "nat \<Rightarrow> char" where
  "digit_char d = ''0123456789'' ! d"

fun show_nat :: "nat \<Rightarrow> string" where
  "show_nat n = (if n < 10 then [digit_char n] else show_nat (n div 10) @ [digit_char (n mod 10)])"

declare show_nat.simps [simp del]

definition show_int :: "int \<Rightarrow> string" where
  "show_int n = (if n < 0 then ''-'' @ show_nat (nat (- n)) else show_nat (nat n))"

text \<open>
  The format specification \<open>.kf\<close> on a finite float: the exact value is rounded to \<open>k\<close>
  decimals, ties to even, and printed with exactly \<open>k\<close> digits after the point.
\<close>

definition round_half_even :: "rat \<Rightarrow> int" where
  "round_half_even x =
     (let f = \<lfloor>x\<rfloor>; d = x - of_int f
      in if d < 1 / 2 then f else if 1 / 2 < d then f + 1 else if even f then f else f + 1)"

definition zero_pad :: "nat \<Rightarrow> string \<Rightarrow> string" where
  "zero_pad k s = replicate (k - length s) (CHR ''0'') @ s"

definition format_fixed :: "nat \<Rightarrow> rat \<Rightarrow> string" where
  "format_fixed k x =
     (let q = nat (round_half_even (\<bar>x\<bar> * 10 ^ k))
      in (if x < 0 then ''-'' else '''') @ show_nat (q div 10 ^ k)
         @ (if k = 0 then '''' else ''.'' @ zero_pad k (show_nat (q mod 10 ^ k))))"

text \<open>
  \<open>float(n)\<close> of an integer, which the format code \<open>f\<close> applies to an integer first: the
  nearest float with a significand of 53 bits, ties to even; an integer whose nearest float
  would be \<open>2 ^ 1024\<close> or more raises OverflowError.
\<close>

fun bit_length :: "nat \<Rightarrow> nat" where
  "bit_length n = (if n = 0 then 0 else Suc (bit_length (n div 2)))"

declare bit_length.simps [simp del]

definition float_of_int :: "int \<Rightarrow> py_error + rat" where
  "float_of_int n =
     (let m = nat \<bar>n\<bar>;
          e = bit_length m - 53;
          v = nat (round_half_even (of_nat m / 2 ^ e)) * 2 ^ e
      in if 2 ^ 1024 \<le> v then Inl OverflowError
         else Inr (if n < 0 then - of_nat v else of_nat v))"

text \<open>
  \<open>str(v)\<close> of a cell inside an f-string. The text of a finite float (the shortest
  representation that Python's float printing chooses) is a parameter \<open>num_str\<close>.
\<close>

definition py_str :: "(rat \<Rightarrow> string) \<Rightarrow> cell \<Rightarrow> string" where
  "py_str num_str c =
     (case c of NaN \<Rightarrow> ''nan'' | Str s \<Rightarrow> s | PyInt n \<Rightarrow> show_int n | PyFloat x \<Rightarrow> num_str x
              | PosInf \<Rightarrow> ''inf'' | NegInf \<Rightarrow> ''-inf'')"

section \<open>generate-embeddings.py: the food-text builder\<close>

text \<open>\<open>pd.notna(row.get(k))\<close>: false for an absent column and for a missing value.\<close>

definition notna :: "cell \<Rightarrow> bool" where
  "notna c = (c \<noteq> NaN)"

definition notna_get :: "row \<Rightarrow> string \<Rightarrow> bool" where
  "notna_get r k = (case r k of None \<Rightarrow> False | Some c \<Rightarrow> notna c)"

text \<open>\<open>row[col] > 0\<close>: comparing a string with an int raises TypeError.\<close>

definition gt_zero :: "cell \<Rightarrow> py_error + bool" where
  "gt_zero c =
     (case c of NaN \<Rightarrow> Inr False | Str s \<Rightarrow> Inl TypeError | PyInt n \<Rightarrow> Inr (0 < n)
              | PyFloat x \<Rightarrow> Inr (0 < x) | PosInf \<Rightarrow> Inr True | NegInf \<Rightarrow> Inr False)"

text \<open>
  \<open>f"{v:.2f}"\<close>: a string does not accept the format code \<open>f\<close>, an integer is converted to
  a float first, and an infinite float prints as \<open>inf\<close>.
\<close>

definition format_2f :: "cell \<Rightarrow> py_error + string" where
  "format_2f c =
     (case c of
        NaN \<Rightarrow> Inr ''nan''
      | Str s \<Rightarrow> Inl ValueError
      | PyInt n \<Rightarrow> (case float_of_int n of Inl e \<Rightarrow> Inl e | Inr x \<Rightarrow> Inr (format_fixed 2 x))
      | PyFloat x \<Rightarrow> Inr (format_fixed 2 x)
      | PosInf \<Rightarrow> Inr ''inf''
      | NegInf \<Rightarrow> Inr ''-inf'')"

definition nutrient_cols :: "(string \<times> string) list" where
  "nutrient_cols =
     [(''protein'', ''protein''),
      (''total_lipid_fat'', ''fat''),
      (''carbohydrate_by_difference'', ''carbs''),
      (''calcium_ca'', ''calcium''),
      (''iron_fe'', ''iron''),
      (''magnesium_mg'', ''magnesium''),
      (''vitamin_c_total_ascorbic_acid'', ''vitamin C''),
      (''vitamin_d3_cholecalciferol'', ''vitamin D''),
      (''vitamin_b12'', ''vitamin B12'')]"

text \<open>
  The loop \<open>for col, name in nutrient_cols\<close>, with the list \<open>nutrients\<close> as accumulator.
  The condition is evaluated left to right and stops at the first false conjunct.
\<close>

fun nutrient_loop :: "row \<Rightarrow> (string \<times> string) list \<Rightarrow> string list \<Rightarrow> py_error + string list" where
  "nutrient_loop r [] nutrients = Inr nutrients"
| "nutrient_loop r ((col, name) # rest) nutrients =
     (case r col of
        None \<Rightarrow> nutrient_loop r rest nutrients
      | Some v \<Rightarrow>
          if \<not> notna v then nutrient_loop r rest nutrients
          else (case gt_zero v of
                  Inl e \<Rightarrow> Inl e
                | Inr pos \<Rightarrow>
                    if \<not> pos then nutrient_loop r rest nutrients
                    else (case format_2f v of
                            Inl e \<Rightarrow> Inl e
                          | Inr s \<Rightarrow>
                              nutrient_loop r rest
                                (nutrients @ [name @ '': '' @ s @ ''g/100g'']))))"

text \<open>
  The four leading \<open>if\<close> statements. The description is appended as the value itself, the
  other three inside an f-string.
\<close>

definition header_parts :: "(rat \<Rightarrow> string) \<Rightarrow> row \<Rightarrow> cell list" where
  "header_parts num_str r =
     (if notna_get r ''food_description'' then [the (r ''food_description'')] else [])
     @ (if notna_get r ''food_common_name''
        then [Str (''Also known as: '' @ py_str num_str (the (r ''food_common_name'')))] else [])
     @ (if notna_get r ''category''
        then [Str (''Category: '' @ py_str num_str (the (r ''category'')))] else [])
     @ (if notna_get r ''brand_name''
        then [Str (''Brand: '' @ py_str num_str (the (r ''brand_name'')))] else [])"

definition create_food_text :: "(rat \<Rightarrow> string) \<Rightarrow> row \<Rightarrow> py_error + string" where
  "create_food_text num_str r =
     (let parts = header_parts num_str r
      in case nutrient_loop r nutrient_cols [] of
           Inl e \<Rightarrow> Inl e
         | Inr nutrients \<Rightarrow>
             str_join '' | ''
               (if nutrients \<noteq> []
                then parts @ [Str (''Nutrients per 100g: '' @ join '', '' (take 5 nutrients))]
                else parts))"

subsection \<open>The builder's output as the specification words it\<close>

text \<open>
  A nutrient qualifies when its column holds a number that is strictly positive. The
  qualifying nutrients are listed in the order of \<open>nutrient_cols\<close>; the segment shows the
  first five, each value to two decimals (an integer as the float it converts to, an
  infinite value as \<open>inf\<close>).
\<close>

definition positive_cell :: "cell option \<Rightarrow> cell option" where
  "positive_cell c =
     (case c of
        Some (PyInt n) \<Rightarrow> if 0 < n then c else None
      | Some (PyFloat x) \<Rightarrow> if 0 < x then c else None
      | Some PosInf \<Rightarrow> c
      | _ \<Rightarrow> None)"

definition qualifying_of :: "row \<Rightarrow> (string \<times> string) list \<Rightarrow> (string \<times> cell) list" where
  "qualifying_of r cols =
     List.map_filter (\<lambda>(col, name). map_option (Pair name) (positive_cell (r col))) cols"

definition qualifying :: "row \<Rightarrow> (string \<times> cell) list" where
  "qualifying r = qualifying_of r nutrient_cols"

definition two_decimals :: "cell \<Rightarrow> string" where
  "two_decimals c =
     (case c of
        PyFloat x \<Rightarrow> format_fixed 2 x
      | PyInt n \<Rightarrow> (case float_of_int n of Inr x \<Rightarrow> format_fixed 2 x | Inl e \<Rightarrow> [])
      | PosInf \<Rightarrow> ''inf''
      | _ \<Rightarrow> [])"

definition nutrient_entry :: "string \<times> cell \<Rightarrow> string" where
  "nutrient_entry e = fst e @ '': '' @ two_decimals (snd e) @ ''g/100g''"

definition nutrient_segment :: "row \<Rightarrow> string list" where
  "nutrient_segment r =
     (if qualifying r = [] then []
      else [''Nutrients per 100g: '' @ join '', '' (map nutrient_entry (take 5 (qualifying r)))])"

text \<open>The leading parts: the description as it is, the other three fields with their labels.\<close>

definition header_texts :: "(rat \<Rightarrow> string) \<Rightarrow> row \<Rightarrow> string list" where
  "header_texts num_str r =
     (case r ''food_description'' of Some (Str s) \<Rightarrow> [s] | _ \<Rightarrow> [])
     @ (case r ''food_common_name'' of
          None \<Rightarrow> [] | Some NaN \<Rightarrow> [] | Some c \<Rightarrow> [''Also known as: '' @ py_str num_str c])
     @ (case r ''category'' of
          None \<Rightarrow> [] | Some NaN \<Rightarrow> [] | Some c \<Rightarrow> [''Category: '' @ py_str num_str c])
     @ (case r ''brand_name'' of
          None \<Rightarrow> [] | Some NaN \<Rightarrow> [] | Some c \<Rightarrow> [''Brand: '' @ py_str num_str c])"

text \<open>
  The records on which the builder returns: the description is a string or missing, and no
  nutrient column holds a string or a positive integer too large for a float.
\<close>

definition formattable :: "cell option \<Rightarrow> bool" where
  "formattable c =
     (case c of
        Some (Str s) \<Rightarrow> False
      | Some (PyInt n) \<Rightarrow> n \<le> 0 \<or> (case float_of_int n of Inl e \<Rightarrow> False | Inr x \<Rightarrow> True)
      | _ \<Rightarrow> True)"

definition text_or_missing :: "cell option \<Rightarrow> bool" where
  "text_or_missing c = (case c of None \<Rightarrow> True | Some NaN \<Rightarrow> True | Some (Str s) \<Rightarrow> True | _ \<Rightarrow> False)"

definition well_typed :: "row \<Rightarrow> bool" where
  "well_typed r = (text_or_missing (r ''food_description'')
                   \<and> list_all (\<lambda>(col, name). formattable (r col)) nutrient_cols)"

definition tracked_fields :: "string list" where
  "tracked_fields = [''food_description'', ''food_common_name'', ''category'', ''brand_name'']
                    @ map fst nutrient_cols"

definition all_missing :: "row \<Rightarrow> bool" where
  "all_missing r = list_all (\<lambda>k. \<not> notna_get r k) tracked_fields"

text \<open>The shape of a number printed to two decimals: digits, a point, two digits.\<close>

definition is_digit :: "char \<Rightarrow> bool" where
  "is_digit c = (c \<in> set ''0123456789'')"

definition two_decimal_text :: "string \<Rightarrow> bool" where
  "two_decimal_text s =
     (4 \<le> length s \<and> list_all is_digit (take (length s - 3) s)
      \<and> s ! (length s - 3) = CHR ''.'' \<and> list_all is_digit (drop (length s - 2) s))"

text \<open>Concrete inputs on which the theorems below are exercised.\<close>

definition num_str_example :: "rat \<Rightarrow> string" where
  "num_str_example x = show_int \<lfloor>x\<rfloor> @ ''.0''"

definition example_row :: row where
  "example_row =
     [''food_description'' \<mapsto> Str ''Milk'', ''brand_name'' \<mapsto> NaN,
      ''protein'' \<mapsto> PyFloat 3.456, ''total_lipid_fat'' \<mapsto> PyFloat 0.125,
      ''carbohydrate_by_difference'' \<mapsto> PyInt 0,
      ''calcium_ca'' \<mapsto> PyInt 9007199254740993,
      ''magnesium_mg'' \<mapsto> NaN,
      ''vitamin_c_total_ascorbic_acid'' \<mapsto> PyInt 3,
      ''vitamin_d3_cholecalciferol'' \<mapsto> PyFloat 2,
      ''vitamin_b12'' \<mapsto> PyFloat 1]"

definition plain_row :: row where
  "plain_row =
     [''food_description'' \<mapsto> Str ''Rice'', ''category'' \<mapsto> Str ''Grains'',
      ''protein'' \<mapsto> PyInt 7, ''iron_fe'' \<mapsto> PyFloat (- 1)]"

definition infinite_row :: row where
  "infinite_row = [''food_description'' \<mapsto> Str ''Salt'', ''protein'' \<mapsto> PosInf]"

definition text_nutrient_row :: row where
  "text_nutrient_row = [''food_description'' \<mapsto> Str ''Milk'', ''protein'' \<mapsto> Str ''high'']"

definition numeric_description_row :: row where
  "numeric_description_row = [''food_description'' \<mapsto> PyInt 5]"

definition huge_nutrient_row :: row where
  "huge_nutrient_row = [''food_description'' \<mapsto> Str ''Milk'', ''protein'' \<mapsto> PyInt (2 ^ 1024)]"

section \<open>Effects and outcomes of a run\<close>

text \<open>
  A parsed JSON document. An object is the list of its key-value pairs in insertion
  order, with distinct keys; a lookup is \<open>map_of\<close>.
\<close>

datatype json =
  JNull | JBool bool | JNum rat | JStr string | JArr "json list" | JObj "(string \<times> json) list"

datatype param = PStr string | PInt int

text \<open>One call of \<open>requests.get(url, params=..., timeout=...)\<close>.\<close>

record request =
  url :: string
  params :: "(string \<times> param) list"
  timeout :: nat

text \<open>
  The document that the embedding generator writes. An embedding is a list of numbers;
  the numbers are opaque to the script, which only counts and copies them.
\<close>

type_synonym vector = "rat list"

record item =
  item_fdc_id :: string
  item_text :: string
  item_embedding :: vector

record document =
  doc_model :: string
  doc_count :: nat
  doc_dimension :: nat
  doc_items :: "item list"

text \<open>
  What a run does to the outside, in order, and how it ends: \<open>sys.exit(n)\<close>, an exception
  that no handler catches (the interpreter then exits with status 1), or the normal end.
  \<open>EmbeddingsCreate\<close> is one network call to the remote embedding service with its batch,
  \<open>ModelEncode\<close> the call of the local model with the texts and the batch size.
\<close>

datatype event =
  Print string | PrintHelp | HttpGet request
  | MakeDirs string | ReadCsv string
  | EmbeddingsCreate "string list" | ModelEncode "string list" int
  | WriteJson string document

datatype outcome = Exit nat | Uncaught py_error | Done

fun exit_status :: "outcome \<Rightarrow> nat" where
  "exit_status (Exit n) = n"
| "exit_status (Uncaught e) = 1"
| "exit_status Done = 0"

text \<open>The truth value of an optional string: \<open>None\<close> and the empty string are false.\<close>

definition truthy :: "string option \<Rightarrow> bool" where
  "truthy s = (case s of None \<Rightarrow> False | Some v \<Rightarrow> v \<noteq> [])"


section \<open>generate-embeddings.py: the command-line pipeline\<close>

text \<open>
  What lies outside the script. A path of the file system names nothing, a directory, or a
  file; of a file only the result of \<open>pd.read_csv\<close> matters, the rows of the frame or the
  error of the parser. The remote service answers a batch with a list of vectors or fails,
  and its answer may depend on which call of the run it is. The remaining fields are the
  installed libraries, \<open>os.makedirs\<close>, the environment variables, the local model (loading
  it and encoding with it), writing the JSON file, \<open>os.path.getsize\<close>, and the text that
  \<open>str\<close> gives for a finite float.
\<close>

datatype node = File "py_error + row list" | Directory

record world =
  pandas_installed :: bool
  openai_installed :: bool
  sentence_transformers_installed :: bool
  fs :: "string \<Rightarrow> node option"
  makedirs :: "string \<Rightarrow> py_error option"
  environ :: "string \<Rightarrow> string option"
  embeddings_create :: "nat \<Rightarrow> string list \<Rightarrow> py_error + vector list"
  model_load :: "py_error option"
  model_encode :: "string list \<Rightarrow> int \<Rightarrow> py_error + vector list"
  write_json :: "string \<Rightarrow> document \<Rightarrow> py_error option"
  getsize :: "string \<Rightarrow> py_error + nat"
  float_str :: "rat \<Rightarrow> string"

text \<open>The parsed command line: \<open>--input\<close>, \<open>--output\<close>, \<open>--local\<close>, \<open>--limit\<close>, \<open>--batch-size\<close>.\<close>

record embed_args =
  e_input :: string
  e_output :: "string option"
  e_local :: bool
  e_limit :: "int option"
  e_batch_size :: int

text \<open>\<open>os.path.exists\<close> is true of a file and of a directory.\<close>

definition path_exists :: "world \<Rightarrow> string \<Rightarrow> bool" where
  "path_exists w p = (fs w p \<noteq> None)"

text \<open>\<open>pd.read_csv(path)\<close>: a path that names no file raises an OSError.\<close>

definition read_csv :: "world \<Rightarrow> string \<Rightarrow> py_error + row list" where
  "read_csv w p =
     (case fs w p of None \<Rightarrow> Inl OSError | Some Directory \<Rightarrow> Inl OSError | Some (File res) \<Rightarrow> res)"

text \<open>\<open>os.path.join(a, b)\<close> for a relative \<open>b\<close>.\<close>

definition path_join :: "string \<Rightarrow> string \<Rightarrow> string" where
  "path_join a b = (if a = [] \<or> last a = CHR ''/'' then a @ b else a @ ''/'' @ b)"

text \<open>
  \<open>df.head(n)\<close>: the first \<open>n\<close> rows, and for a negative \<open>n\<close> all rows but the last
  \<open>- n\<close>.
\<close>

definition head :: "row list \<Rightarrow> int \<Rightarrow> row list" where
  "head df n = (if 0 \<le> n then take (nat n) df else take (length df - nat (- n)) df)"

text \<open>
  The lines \<open>if args.limit: df = df.head(args.limit)\<close>: an absent limit and the limit 0
  are both false.
\<close>

definition limit_rows :: "int option \<Rightarrow> row list \<Rightarrow> row list" where
  "limit_rows limit df = (case limit of None \<Rightarrow> df | Some n \<Rightarrow> if n = 0 then df else head df n)"

definition limit_events :: "int option \<Rightarrow> event list" where
  "limit_events limit =
     (case limit of None \<Rightarrow> []
      | Some n \<Rightarrow> if n = 0 then [] else [Print (''Limited to '' @ show_int n @ '' rows'')])"

text \<open>\<open>range(0, stop, step)\<close> as a list: a zero step raises ValueError.\<close>

definition py_range :: "nat \<Rightarrow> int \<Rightarrow> py_error + nat list" where
  "py_range stop step =
     (if step = 0 then Inl ValueError
      else if step < 0 then Inr []
      else Inr (map (\<lambda>k. k * nat step) [0 ..< (stop + nat step - 1) div nat step]))"

text \<open>The slice \<open>xs[i:j]\<close> for \<open>i\<close> not negative; a negative \<open>j\<close> counts from the end.\<close>

definition slice :: "'a list \<Rightarrow> nat \<Rightarrow> int \<Rightarrow> 'a list" where
  "slice xs i j = drop i (if 0 \<le> j then take (nat j) xs else take (length xs - nat (- j)) xs)"

text \<open>\<open>df.apply(create_food_text, axis=1).tolist()\<close>: the builder on every row, in order.\<close>

fun apply_rows :: "(rat \<Rightarrow> string) \<Rightarrow> row list \<Rightarrow> py_error + string list" where
  "apply_rows ns [] = Inr []"
| "apply_rows ns (r # rs) =
     (case create_food_text ns r of
        Inl e \<Rightarrow> Inl e
      | Inr t \<Rightarrow> (case apply_rows ns rs of Inl e \<Rightarrow> Inl e | Inr ts \<Rightarrow> Inr (t # ts)))"

subsection \<open>The remote provider\<close>

text \<open>
  The loop \<open>for i in range(0, len(texts), batch_size)\<close> over the list of its indices, with
  the number of the call and the list \<open>embeddings\<close> as accumulators.
\<close>

fun batch_loop ::
  "world \<Rightarrow> string list \<Rightarrow> int \<Rightarrow> nat list \<Rightarrow> nat \<Rightarrow> vector list
   \<Rightarrow> event list \<times> (py_error + vector list)" where
  "batch_loop w texts batch_size [] k embeddings = ([], Inr embeddings)"
| "batch_loop w texts batch_size (i # rest) k embeddings =
     (let batch = slice texts i (int i + batch_size)
      in case embeddings_create w k batch of
           Inl e \<Rightarrow> ([EmbeddingsCreate batch], Inl e)
         | Inr batch_embeddings \<Rightarrow>
             (case batch_loop w texts batch_size rest (Suc k) (embeddings @ batch_embeddings) of
                (tr, res) \<Rightarrow>
                  (EmbeddingsCreate batch
                   # Print (''  Processed ''
                            @ show_int (min (int i + batch_size) (int (length texts)))
                            @ ''/'' @ show_nat (length texts))
                   # tr, res)))"

definition remediation :: "event list" where
  "remediation =
     [Print ''Error: OPENAI_API_KEY environment variable not set'',
      Print ([CHR 0x0A] @ ''To set it:''),
      Print (''  export OPENAI_API_KEY='' @ [CHR 0x27] @ ''your-api-key-here'' @ [CHR 0x27]),
      Print ([CHR 0x0A] @ ''Get your API key from: https://platform.openai.com/api-keys'')]"

text \<open>
  A provider ends the run (\<open>sys.exit\<close> or an exception) or returns the embeddings.
\<close>

definition generate_openai_embeddings ::
  "world \<Rightarrow> string list \<Rightarrow> int \<Rightarrow> event list \<times> (outcome + vector list)" where
  "generate_openai_embeddings w texts batch_size =
     (if \<not> openai_installed w
      then ([Print ''Error: openai library required. Install with: pip install openai''],
            Inl (Exit 1))
      else if \<not> truthy (environ w ''OPENAI_API_KEY'')
      then (remediation, Inl (Exit 1))
      else
        (let start = Print (''Generating embeddings for '' @ show_nat (length texts) @ '' texts...'')
         in case py_range (length texts) batch_size of
              Inl e \<Rightarrow> ([start], Inl (Uncaught e))
            | Inr indices \<Rightarrow>
                (case batch_loop w texts batch_size indices 0 [] of
                   (tr, Inl e) \<Rightarrow> (start # tr, Inl (Uncaught e))
                 | (tr, Inr embeddings) \<Rightarrow> (start # tr, Inr embeddings))))"

subsection \<open>The local provider\<close>

definition generate_local_embeddings ::
  "world \<Rightarrow> string list \<Rightarrow> int \<Rightarrow> event list \<times> (outcome + vector list)" where
  "generate_local_embeddings w texts batch_size =
     (if \<not> sentence_transformers_installed w
      then ([Print ''Error: sentence-transformers required for local embeddings'',
             Print ''Install with: pip install sentence-transformers''],
            Inl (Exit 1))
      else
        (let loading = Print ''Loading local embedding model (all-MiniLM-L6-v2)...''
         in case model_load w of
              Some e \<Rightarrow> ([loading], Inl (Uncaught e))
            | None \<Rightarrow>
                (let tr = [loading,
                           Print (''Generating embeddings for '' @ show_nat (length texts)
                                  @ '' texts...''),
                           ModelEncode texts batch_size]
                 in case model_encode w texts batch_size of
                      Inl e \<Rightarrow> (tr, Inl (Uncaught e))
                    | Inr embeddings \<Rightarrow> (tr, Inr embeddings))))"

subsection \<open>The entry point of the embedding generator\<close>

text \<open>
  The list comprehension that builds \<open>items\<close>, with the index \<open>i\<close> of \<open>enumerate\<close>: an index
  beyond \<open>texts\<close> or \<open>embeddings\<close> raises IndexError.
\<close>

fun build_items ::
  "(rat \<Rightarrow> string) \<Rightarrow> string list \<Rightarrow> vector list \<Rightarrow> nat \<Rightarrow> row list \<Rightarrow> py_error + item list" where
  "build_items ns texts embeddings i [] = Inr []"
| "build_items ns texts embeddings i (r # rs) =
     (if length texts \<le> i \<or> length embeddings \<le> i then Inl IndexError
      else (case build_items ns texts embeddings (Suc i) rs of
              Inl e \<Rightarrow> Inl e
            | Inr items \<Rightarrow>
                Inr (\<lparr>item_fdc_id = (case r ''fdc_id'' of None \<Rightarrow> show_nat i | Some c \<Rightarrow> py_str ns c),
                      item_text = texts ! i,
                      item_embedding = embeddings ! i\<rparr> # items)))"

text \<open>\<open>len(embeddings[0]) if embeddings else 0\<close>.\<close>

definition dimension :: "vector list \<Rightarrow> nat" where
  "dimension embeddings = (case embeddings of [] \<Rightarrow> 0 | e # es \<Rightarrow> length e)"

text \<open>The part of \<open>main\<close> from the comment \<open>Save embeddings\<close> to the end.\<close>

definition save_embeddings ::
  "world \<Rightarrow> string \<Rightarrow> row list \<Rightarrow> string list \<Rightarrow> vector list \<Rightarrow> string \<Rightarrow> event list \<times> outcome" where
  "save_embeddings w out_dir df texts embeddings model_name =
     (let output_file = path_join out_dir ''usda_embeddings.json'';
          saving = Print ([CHR 0x0A] @ ''Saving embeddings to '' @ output_file @ ''...'')
      in case build_items (float_str w) texts embeddings 0 df of
           Inl e \<Rightarrow> ([saving], Uncaught e)
         | Inr items \<Rightarrow>
             (let data = \<lparr>doc_model = model_name, doc_count = length embeddings,
                          doc_dimension = dimension embeddings, doc_items = items\<rparr>
              in case write_json w output_file data of
                   Some e \<Rightarrow> ([saving, WriteJson output_file data], Uncaught e)
                 | None \<Rightarrow>
                     (case getsize w output_file of
                        Inl e \<Rightarrow> ([saving, WriteJson output_file data], Uncaught e)
                      | Inr bytes \<Rightarrow>
                          ([saving, WriteJson output_file data,
                            Print ([CHR 0x0A] @ ''Embeddings saved: '' @ output_file @ '' (''
                                   @ format_fixed 1 (of_nat bytes / (1024 * 1024)) @ '' MB)''),
                            Print (''  Model: '' @ model_name),
                            Print (''  Items: '' @ show_nat (length embeddings)),
                            Print (''  Dimensions: '' @ show_nat (dimension embeddings))],
                           Done))))"

text \<open>
  The part of \<open>main\<close> that works on the loaded and limited frame: building the texts,
  calling the provider, saving.
\<close>

definition process :: "world \<Rightarrow> embed_args \<Rightarrow> string \<Rightarrow> row list \<Rightarrow> event list \<times> outcome" where
  "process w a out_dir df =
     (let loaded = [Print (''Loaded '' @ show_nat (length df) @ '' food items''),
                    Print ''Creating searchable text for each food item...'']
      in case apply_rows (float_str w) df of
           Inl e \<Rightarrow> (loaded, Uncaught e)
         | Inr texts \<Rightarrow>
             (let banner = (if e_local a
                            then Print ([CHR 0x0A] @ ''Using local embeddings (sentence-transformers)'')
                            else Print ([CHR 0x0A] @ ''Using OpenAI embeddings (text-embedding-3-small)''));
                  provider = (if e_local a
                              then generate_local_embeddings w texts (e_batch_size a)
                              else generate_openai_embeddings w texts (e_batch_size a));
                  model_name = (if e_local a then ''all-MiniLM-L6-v2'' else ''text-embedding-3-small'')
              in case snd provider of
                   Inl out \<Rightarrow> (loaded @ [banner] @ fst provider, out)
                 | Inr embeddings \<Rightarrow>
                     (let saved = save_embeddings w out_dir df texts embeddings model_name
                      in (loaded @ [banner] @ fst provider @ fst saved, snd saved))))"

text \<open>\<open>args.output or "output/embeddings"\<close>: an empty \<open>--output\<close> is false.\<close>

definition output_dir :: "embed_args \<Rightarrow> string" where
  "output_dir a = (if truthy (e_output a) then the (e_output a) else ''output/embeddings'')"

definition embeddings_main :: "world \<Rightarrow> embed_args \<Rightarrow> event list \<times> outcome" where
  "embeddings_main w a =
     (if \<not> path_exists w (e_input a)
      then ([Print (''Error: Input file not found: '' @ e_input a)], Exit 1)
      else
        (case makedirs w (output_dir a) of
           Some e \<Rightarrow> ([MakeDirs (output_dir a)], Uncaught e)
         | None \<Rightarrow>
             (let loading = [MakeDirs (output_dir a),
                             Print (''Loading data from '' @ e_input a @ ''...''),
                             ReadCsv (e_input a)]
              in case read_csv w (e_input a) of
                   Inl e \<Rightarrow> (loading, Uncaught e)
                 | Inr rows \<Rightarrow>
                     (let run = process w a (output_dir a) (limit_rows (e_limit a) rows)
                      in (loading @ limit_events (e_limit a) @ fst run, snd run)))))"

text \<open>The whole script: the import of pandas at the top of the module, then \<open>main\<close>.\<close>

definition embeddings_script :: "world \<Rightarrow> embed_args \<Rightarrow> event list \<times> outcome" where
  "embeddings_script w a =
     (if \<not> pandas_installed w
      then ([Print ''Error: pandas required. Install with: pip install pandas''], Exit 1)
      else embeddings_main w a)"

text \<open>What a trace shows of the outside: the batches sent to the remote service, the
  directories created, the documents written.\<close>

fun creates :: "event list \<Rightarrow> string list list" where
  "creates [] = []"
| "creates (EmbeddingsCreate batch # es) = batch # creates es"
| "creates (e # es) = creates es"

fun writes :: "event list \<Rightarrow> event list" where
  "writes [] = []"
| "writes (MakeDirs d # es) = MakeDirs d # writes es"
| "writes (WriteJson f d # es) = WriteJson f d # writes es"
| "writes (e # es) = writes es"

fun written :: "event list \<Rightarrow> document list" where
  "written [] = []"
| "written (WriteJson f d # es) = d # written es"
| "written (e # es) = written es"

subsection \<open>The pipeline as the specification words it\<close>

text \<open>The text of a record on which the builder returns.\<close>

definition food_text :: "(rat \<Rightarrow> string) \<Rightarrow> row \<Rightarrow> string" where
  "food_text ns r = join '' | '' (header_texts ns r @ nutrient_segment r)"

text \<open>
  The consecutive batches of at most \<open>b\<close> elements: batch \<open>k\<close> holds the elements from
  position \<open>k * b\<close> on, and there are \<open>\<lceil>n / b\<rceil>\<close> batches for \<open>n\<close> elements.
\<close>

definition chunk :: "nat \<Rightarrow> 'a list \<Rightarrow> nat \<Rightarrow> 'a list" where
  "chunk b xs k = take b (drop (k * b) xs)"

definition chunk_count :: "nat \<Rightarrow> nat \<Rightarrow> nat" where
  "chunk_count b n = (n + b - 1) div b"

definition chunks :: "nat \<Rightarrow> 'a list \<Rightarrow> 'a list list" where
  "chunks b xs = map (chunk b xs) [0 ..< chunk_count b (length xs)]"

text \<open>
  What the service answers to batch \<open>k\<close> when it is sent as call \<open>k\<close>, and the assumption
  that every such answer holds one vector for each text of the batch.
\<close>

definition answer :: "world \<Rightarrow> nat \<Rightarrow> string list \<Rightarrow> nat \<Rightarrow> vector list" where
  "answer w b texts k =
     (case embeddings_create w k (chunk b texts k) of Inl e \<Rightarrow> [] | Inr vs \<Rightarrow> vs)"

definition one_vector_per_text :: "world \<Rightarrow> nat \<Rightarrow> string list \<Rightarrow> bool" where
  "one_vector_per_text w b texts =
     list_all (\<lambda>k. case embeddings_create w k (chunk b texts k) of
                      Inl e \<Rightarrow> False
                    | Inr vs \<Rightarrow> length vs = length (chunk b texts k))
       [0 ..< chunk_count b (length texts)]"

text \<open>
  A run reaches the provider when pandas is there, the output directory can be made, the
  input is a file that parses, and the builder returns on every row left by the limit.
\<close>

definition reaches_provider :: "world \<Rightarrow> embed_args \<Rightarrow> bool" where
  "reaches_provider w a =
     (pandas_installed w \<and> makedirs w (output_dir a) = None
      \<and> (case fs w (e_input a) of
            Some (File (Inr rows)) \<Rightarrow> list_all well_typed (limit_rows (e_limit a) rows)
          | _ \<Rightarrow> False))"

text \<open>Concrete worlds and command lines on which the theorems below are exercised.\<close>

definition apple_row :: row where
  "apple_row = [''fdc_id'' \<mapsto> PyInt 1, ''food_description'' \<mapsto> Str ''Apple'']"

definition bread_row :: row where
  "bread_row = [''fdc_id'' \<mapsto> PyInt 2, ''food_description'' \<mapsto> Str ''Bread'']"

definition cheese_row :: row where
  "cheese_row = [''food_description'' \<mapsto> Str ''Cheese'']"

definition example_service :: "nat \<Rightarrow> string list \<Rightarrow> py_error + vector list" where
  "example_service k batch = Inr (map (\<lambda>t. [of_nat (length t), of_nat k]) batch)"

definition example_world :: world where
  "example_world =
     \<lparr>pandas_installed = True, openai_installed = True, sentence_transformers_installed = True,
      fs = [''foods.csv'' \<mapsto> File (Inr [apple_row, bread_row, cheese_row]),
            ''empty.csv'' \<mapsto> File (Inr []),
            ''data'' \<mapsto> Directory],
      makedirs = (\<lambda>d. None),
      environ = [''OPENAI_API_KEY'' \<mapsto> ''sk-test''],
      embeddings_create = example_service,
      model_load = None,
      model_encode = (\<lambda>texts n. Inr (map (\<lambda>t. [of_nat (length t)]) texts)),
      write_json = (\<lambda>f d. None),
      getsize = (\<lambda>f. Inr 2097152),
      float_str = num_str_example\<rparr>"

definition no_key_world :: world where
  "no_key_world = example_world\<lparr>environ := Map.empty\<rparr>"

definition example_args :: embed_args where
  "example_args = \<lparr>e_input = ''foods.csv'', e_output = None, e_local = False,
                    e_limit = Some 2, e_batch_size = 1\<rparr>"

definition missing_args :: embed_args where
  "missing_args = example_args\<lparr>e_input := ''missing.csv''\<rparr>"

definition directory_args :: embed_args where
  "directory_args = example_args\<lparr>e_input := ''data''\<rparr>"

definition empty_args :: embed_args where
  "empty_args = example_args\<lparr>e_input := ''empty.csv'', e_limit := None, e_batch_size := 100\<rparr>"

definition zero_batch_args :: embed_args where
  "zero_batch_args = empty_args\<lparr>e_batch_size := 0\<rparr>"

definition zero_limit_args :: embed_args where
  "zero_limit_args = example_args\<lparr>e_limit := Some 0, e_batch_size := 2\<rparr>"

section \<open>query-nih-dsld.py: the supplement API client\<close>

text \<open>
  What lies outside the script: the HTTP service (a failed request, a non-success status
  and a body that is not JSON are the error results), \<open>str\<close> of a JSON value inside an
  f-string, \<open>json.dumps(_, indent=2)\<close>, and the message text of an exception.
\<close>

record net =
  http_get :: "request \<Rightarrow> py_error + json"
  str_of :: "json \<Rightarrow> string"
  dumps :: "json \<Rightarrow> string"
  error_text :: "py_error \<Rightarrow> string"

definition DSLD_BASE_URL :: string where
  "DSLD_BASE_URL = ''https://api.ods.od.nih.gov/dsld/v9''"

text \<open>
  The three search functions have the signature \<open>(query, limit=10)\<close>: the limit is
  \<open>None\<close> when the caller omits it. Each function returns the request it issued together
  with the result.
\<close>

definition limit_or_default :: "int option \<Rightarrow> int" where
  "limit_or_default limit = (case limit of None \<Rightarrow> 10 | Some n \<Rightarrow> n)"

definition search_products :: "net \<Rightarrow> string \<Rightarrow> int option \<Rightarrow> request \<times> (py_error + json)" where
  "search_products w query limit =
     (let req = \<lparr>url = DSLD_BASE_URL @ ''/browse'',
                 params = [(''name'', PStr query),
                           (''pagesize'', PInt (limit_or_default limit)),
                           (''page'', PInt 1)],
                 timeout = 30\<rparr>
      in (req, http_get w req))"

definition get_product_label :: "net \<Rightarrow> string \<Rightarrow> request \<times> (py_error + json)" where
  "get_product_label w dsld_id =
     (let req = \<lparr>url = DSLD_BASE_URL @ ''/label/'' @ dsld_id, params = [], timeout = 30\<rparr>
      in (req, http_get w req))"

definition search_by_ingredient :: "net \<Rightarrow> string \<Rightarrow> int option \<Rightarrow> request \<times> (py_error + json)" where
  "search_by_ingredient w ingredient limit =
     (let req = \<lparr>url = DSLD_BASE_URL @ ''/browse'',
                 params = [(''ingredient'', PStr ingredient),
                           (''pagesize'', PInt (limit_or_default limit)),
                           (''page'', PInt 1)],
                 timeout = 30\<rparr>
      in (req, http_get w req))"

definition search_by_brand :: "net \<Rightarrow> string \<Rightarrow> int option \<Rightarrow> request \<times> (py_error + json)" where
  "search_by_brand w brand limit =
     (let req = \<lparr>url = DSLD_BASE_URL @ ''/browse'',
                 params = [(''brandname'', PStr brand),
                           (''pagesize'', PInt (limit_or_default limit)),
                           (''page'', PInt 1)],
                 timeout = 30\<rparr>
      in (req, http_get w req))"

subsection \<open>The presenter\<close>

text \<open>\<open>str(product.get(key, default))\<close> with a string default.\<close>

definition get_str :: "(json \<Rightarrow> string) \<Rightarrow> (string \<Rightarrow> json option) \<Rightarrow> string \<Rightarrow> string \<Rightarrow> string" where
  "get_str str product key dflt = (case product key of None \<Rightarrow> dflt | Some v \<Rightarrow> str v)"

text \<open>\<open>product[key]\<close>: a missing key raises KeyError.\<close>

definition subscript :: "(string \<Rightarrow> json option) \<Rightarrow> string \<Rightarrow> py_error + json" where
  "subscript product key = (case product key of None \<Rightarrow> Inl KeyError | Some v \<Rightarrow> Inr v)"

definition newline :: string where
  "newline = [CHR 0x0A]"

text \<open>The list \<open>lines\<close> of \<open>format_product\<close> when the function reaches its return.\<close>

definition format_product_lines ::
  "(json \<Rightarrow> string) \<Rightarrow> (string \<Rightarrow> json option) \<Rightarrow> py_error + string list" where
  "format_product_lines str product =
     (let lines = [''  ID: '' @ get_str str product ''dsld_id'' ''N/A'',
                   ''  Name: '' @ get_str str product ''product_name'' ''N/A'',
                   ''  Brand: '' @ get_str str product ''brand_name'' ''N/A'',
                   ''  Type: '' @ get_str str product ''product_type'' ''N/A'']
      in if product ''serving_size'' \<noteq> None
         then (case subscript product ''serving_size'' of
                 Inl e \<Rightarrow> Inl e
               | Inr v \<Rightarrow> Inr (lines @ [''  Serving: '' @ str v]))
         else Inr lines)"

definition format_product ::
  "(json \<Rightarrow> string) \<Rightarrow> (string \<Rightarrow> json option) \<Rightarrow> py_error + string" where
  "format_product str product =
     (case format_product_lines str product of
        Inl e \<Rightarrow> Inl e
      | Inr lines \<Rightarrow> Inr (join newline lines))"


subsection \<open>The command-line entry point of the query tool\<close>

text \<open>The parsed arguments; \<open>--limit\<close> has the default 10 and \<open>--json\<close> is a switch.\<close>

record query_args =
  q_product :: "string option"
  q_ingredient :: "string option"
  q_brand :: "string option"
  q_label :: "string option"
  q_limit :: int
  q_json :: bool

definition help_events :: "event list" where
  "help_events =
     [PrintHelp,
      Print (newline @ replicate 60 (CHR ''='')),
      Print ''NIH DSLD API Information'',
      Print (replicate 60 (CHR ''='')),
      Print (newline @ ''API Base URL: https://api.ods.od.nih.gov/dsld/v9''),
      Print ''Documentation: https://dsld.od.nih.gov/api-guide'',
      Print ''Web Interface: https://dsld.od.nih.gov/'',
      Print (newline @ ''No API key required - public access with rate limits''),
      Print (newline @ ''Example queries:''),
      Print (''  python query-nih-dsld.py --ingredient '' @ [CHR 0x27] @ ''vitamin d'' @ [CHR 0x27] @ '' --limit 5''),
      Print (''  python query-nih-dsld.py --product '' @ [CHR 0x27] @ ''fish oil'' @ [CHR 0x27]),
      Print (''  python query-nih-dsld.py --brand '' @ [CHR 0x27] @ ''nature made'' @ [CHR 0x27]),
      Print ''  python query-nih-dsld.py --label 123456 --json'']"

text \<open>
  \<open>len(products)\<close> and the iteration over \<open>products\<close>: a list gives its items, a string its
  characters, an object its keys; the other values have no length.
\<close>

fun items_of :: "json \<Rightarrow> py_error + json list" where
  "items_of (JArr xs) = Inr xs"
| "items_of (JStr s) = Inr (map (\<lambda>c. JStr [c]) s)"
| "items_of (JObj kvs) = Inr (map (\<lambda>kv. JStr (fst kv)) kvs)"
| "items_of v = Inl TypeError"

text \<open>
  The loop \<open>for i, product in enumerate(products, 1)\<close>. An item that is not an object has no
  \<open>get\<close>: AttributeError.
\<close>

fun print_products :: "(json \<Rightarrow> string) \<Rightarrow> nat \<Rightarrow> json list \<Rightarrow> event list \<times> py_error option" where
  "print_products str i [] = ([], None)"
| "print_products str i (JObj kvs # ps) =
     (let head = Print (show_nat i @ ''. '' @ get_str str (map_of kvs) ''product_name'' ''Unknown'')
      in case format_product str (map_of kvs) of
           Inl e \<Rightarrow> ([head], Some e)
         | Inr s \<Rightarrow>
             (case print_products str (Suc i) ps of
                (tr, r) \<Rightarrow> (head # Print s # Print [] # tr, r)))"
| "print_products str i (p # ps) = ([], Some AttributeError)"

text \<open>
  The body shared by the ingredient, brand and product branches after the request:
  raw JSON, or the numbered list of \<open>result.get("products", result.get("data", []))\<close>.
\<close>

definition present_results :: "net \<Rightarrow> bool \<Rightarrow> json \<Rightarrow> event list \<times> py_error option" where
  "present_results w as_json result =
     (if as_json then ([Print (dumps w result)], None)
      else (case result of
              JObj kvs \<Rightarrow>
                (let products = (case map_of kvs ''products'' of
                                   Some v \<Rightarrow> v
                                 | None \<Rightarrow> (case map_of kvs ''data'' of
                                              Some v \<Rightarrow> v | None \<Rightarrow> JArr []))
                 in case items_of products of
                      Inl e \<Rightarrow> ([], Some e)
                    | Inr ps \<Rightarrow>
                        (case print_products (str_of w) 1 ps of
                           (tr, r) \<Rightarrow>
                             (Print (newline @ ''Found '' @ show_nat (length ps)
                                     @ '' products:'' @ newline) # tr, r)))
            | _ \<Rightarrow> ([], Some AttributeError)))"

text \<open>The label branch prints the whole document in both modes.\<close>

definition present_label :: "net \<Rightarrow> bool \<Rightarrow> json \<Rightarrow> event list" where
  "present_label w as_json result =
     (if as_json then [Print (dumps w result)]
      else [Print (newline @ replicate 60 (CHR ''='')),
            Print ''Product Label Details'',
            Print (replicate 60 (CHR ''='')),
            Print (dumps w result)])"

text \<open>The two \<open>except\<close> clauses of \<open>main\<close>; any other exception is not caught.\<close>

definition handle_error :: "net \<Rightarrow> py_error \<Rightarrow> event list \<times> outcome" where
  "handle_error w e =
     (if e = RequestException
      then ([Print (''Error querying NIH DSLD API: '' @ error_text w e)], Exit 1)
      else if e = JSONDecodeError
      then ([Print (''Error parsing API response: '' @ error_text w e)], Exit 1)
      else ([], Uncaught e))"

definition run_search ::
  "net \<Rightarrow> bool \<Rightarrow> string \<Rightarrow> request \<times> (py_error + json) \<Rightarrow> event list \<times> outcome" where
  "run_search w as_json msg call =
     (case call of
        (req, Inl e) \<Rightarrow>
          (case handle_error w e of (tr, out) \<Rightarrow> ([Print msg, HttpGet req] @ tr, out))
      | (req, Inr result) \<Rightarrow>
          (case present_results w as_json result of
             (tr, None) \<Rightarrow> ([Print msg, HttpGet req] @ tr, Done)
           | (tr, Some e) \<Rightarrow>
               (case handle_error w e of (tr', out) \<Rightarrow> ([Print msg, HttpGet req] @ tr @ tr', out))))"

definition run_label :: "net \<Rightarrow> bool \<Rightarrow> string \<Rightarrow> request \<times> (py_error + json) \<Rightarrow> event list \<times> outcome" where
  "run_label w as_json msg call =
     (case call of
        (req, Inl e) \<Rightarrow>
          (case handle_error w e of (tr, out) \<Rightarrow> ([Print msg, HttpGet req] @ tr, out))
      | (req, Inr result) \<Rightarrow> ([Print msg, HttpGet req] @ present_label w as_json result, Done))"

definition query_main :: "net \<Rightarrow> query_args \<Rightarrow> event list \<times> outcome" where
  "query_main w a =
     (if \<not> (truthy (q_product a) \<or> truthy (q_ingredient a) \<or> truthy (q_brand a)
            \<or> truthy (q_label a))
      then (help_events, Exit 0)
      else if truthy (q_label a)
      then run_label w (q_json a)
             (''Fetching label for DSLD ID: '' @ the (q_label a))
             (get_product_label w (the (q_label a)))
      else if truthy (q_ingredient a)
      then run_search w (q_json a)
             (''Searching for products with ingredient: '' @ the (q_ingredient a))
             (search_by_ingredient w (the (q_ingredient a)) (Some (q_limit a)))
      else if truthy (q_brand a)
      then run_search w (q_json a)
             (''Searching for brand: '' @ the (q_brand a))
             (search_by_brand w (the (q_brand a)) (Some (q_limit a)))
      else if truthy (q_product a)
      then run_search w (q_json a)
             (''Searching for product: '' @ the (q_product a))
             (search_products w (the (q_product a)) (Some (q_limit a)))
      else ([], Done))"

text \<open>The requests of a run, in the order they were issued.\<close>

fun requests_of :: "event list \<Rightarrow> request list" where
  "requests_of [] = []"
| "requests_of (HttpGet r # es) = r # requests_of es"
| "requests_of (e # es) = requests_of es"

subsection \<open>The precedence of the search flags as the specification words it\<close>

text \<open>
  The flags in their fixed order: label, ingredient, brand, product, each with the request
  its operation issues. The chosen request is that of the first flag in this order that
  holds a non-empty value.
\<close>

definition precedence :: "net \<Rightarrow> query_args \<Rightarrow> (string option \<times> (string \<Rightarrow> request)) list" where
  "precedence w a =
     [(q_label a, \<lambda>x. fst (get_product_label w x)),
      (q_ingredient a, \<lambda>x. fst (search_by_ingredient w x (Some (q_limit a)))),
      (q_brand a, \<lambda>x. fst (search_by_brand w x (Some (q_limit a)))),
      (q_product a, \<lambda>x. fst (search_products w x (Some (q_limit a))))]"

definition chosen_request :: "net \<Rightarrow> query_args \<Rightarrow> request option" where
  "chosen_request w a =
     (case filter (\<lambda>p. truthy (fst p)) (precedence w a) of
        [] \<Rightarrow> None
      | p # ps \<Rightarrow> Some (snd p (the (fst p))))"

text \<open>Concrete inputs of the query tool on which the theorems below are exercised.\<close>

fun example_str :: "json \<Rightarrow> string" where
  "example_str (JStr s) = s"
| "example_str v = ''?''"

definition example_result :: json where
  "example_result =
     JObj [(''products'',
            JArr [JObj [(''dsld_id'', JStr ''17''), (''product_name'', JStr ''Fish Oil''),
                        (''serving_size'', JStr ''1 softgel'')]])]"

definition example_net :: net where
  "example_net = \<lparr>http_get = (\<lambda>req. Inr example_result), str_of = example_str,
                   dumps = (\<lambda>v. ''{}''), error_text = (\<lambda>e. ''failed'')\<rparr>"

definition two_flags :: query_args where
  "two_flags = \<lparr>q_product = None, q_ingredient = None, q_brand = Some ''nature made'',
                 q_label = Some ''123456'', q_limit = 10, q_json = False\<rparr>"

definition two_empty_flags :: query_args where
  "two_empty_flags = \<lparr>q_product = None, q_ingredient = None, q_brand = Some '''',
                       q_label = Some '''', q_limit = 10, q_json = False\<rparr>"

definition example_product :: "string \<Rightarrow> json option" where
  "example_product = [''dsld_id'' \<mapsto> JStr ''17'', ''serving_size'' \<mapsto> JStr ''1 softgel'']"


definition injected_product :: "string \<Rightarrow> json option" where
  "injected_product = [''product_name'' \<mapsto> JStr (''X'' @ [CHR 0x0A] @ ''  Serving: fake'')]"

subsection \<open>The formatted product as the specification words it\<close>

text \<open>
  The text shown for a field: the placeholder when the key is absent, \<open>str\<close> of the value
  otherwise. The lines of a text are the pieces between its line breaks, as
  \<open>text.split("\n")\<close> gives them.
\<close>

definition field_text :: "(json \<Rightarrow> string) \<Rightarrow> (string \<Rightarrow> json option) \<Rightarrow> string \<Rightarrow> string" where
  "field_text str product key = (case product key of None \<Rightarrow> ''N/A'' | Some v \<Rightarrow> str v)"

fun split_lines :: "string \<Rightarrow> string list" where
  "split_lines [] = [[]]"
| "split_lines (c # cs) =
     (if c = CHR 0x0A then [] # split_lines cs
      else (case split_lines cs of [] \<Rightarrow> [[c]] | l # ls \<Rightarrow> (c # l) # ls))"

definition shown_fields :: "string list" where
  "shown_fields = [''dsld_id'', ''product_name'', ''brand_name'', ''product_type'', ''serving_size'']"

definition single_line_fields :: "(json \<Rightarrow> string) \<Rightarrow> (string \<Rightarrow> json option) \<Rightarrow> bool" where
  "single_line_fields str product =
     list_all (\<lambda>k. CHR 0x0A \<notin> set (field_text str product k)) shown_fields"

definition serving_line :: "string \<Rightarrow> bool" where
  "serving_line l = (take 11 l = ''  Serving: '')"

section \<open>Properties of the food-text builder\<close>


lemma qualifying_of_Nil: "qualifying_of r [] = []"
  by (simp add: qualifying_of_def List.map_filter_simps)

lemma qualifying_of_Cons:
  "qualifying_of r ((col, name) # cols) =
     (case positive_cell (r col) of None \<Rightarrow> qualifying_of r cols
      | Some c \<Rightarrow> (name, c) # qualifying_of r cols)"
  by (simp add: qualifying_of_def List.map_filter_simps split: option.splits)

lemma nutrient_loop_spec:
  "list_all (\<lambda>(col, name). formattable (r col)) cols \<Longrightarrow>
   nutrient_loop r cols acc = Inr (acc @ map nutrient_entry (qualifying_of r cols))"
proof (induction cols arbitrary: acc)
  case Nil
  show ?case by (simp add: qualifying_of_Nil)
next
  case (Cons p cols)
  obtain col name where p: "p = (col, name)" by (cases p)
  from Cons.prems p have ok: "formattable (r col)"
    and rest: "list_all (\<lambda>(col, name). formattable (r col)) cols" by simp_all
  note IH = Cons.IH [OF rest]
  show ?case
  proof (cases "r col")
    case None
    with IH p show ?thesis by (simp add: qualifying_of_Cons positive_cell_def)
  next
    case (Some v)
    with ok IH p show ?thesis
      by (cases v)
         (auto simp: qualifying_of_Cons positive_cell_def formattable_def notna_def gt_zero_def
                     format_2f_def nutrient_entry_def two_decimals_def split: sum.splits)
  qed
qed

lemma nutrient_loop_raises:
  "\<not> list_all (\<lambda>(col, name). formattable (r col)) cols \<Longrightarrow>
   \<exists>e. nutrient_loop r cols acc = Inl e"
proof (induction cols arbitrary: acc)
  case Nil
  then show ?case by simp
next
  case (Cons p cols)
  obtain col name where p: "p = (col, name)" by (cases p)
  show ?case
  proof (cases "formattable (r col)")
    case False
    then show ?thesis using p
      by (auto simp: formattable_def notna_def gt_zero_def format_2f_def
               split: option.splits cell.splits sum.splits)
  next
    case True
    with Cons.prems p have "\<not> list_all (\<lambda>(col, name). formattable (r col)) cols" by simp
    then have "\<And>acc. \<exists>e. nutrient_loop r cols acc = Inl e" by (rule Cons.IH)
    then show ?thesis using p
      by (auto split: option.splits sum.splits)
  qed
qed

lemma nutrient_loop_missing:
  "list_all (\<lambda>(col, name). \<not> notna_get r col) cols \<Longrightarrow> nutrient_loop r cols acc = Inr acc"
  by (induction cols arbitrary: acc) (auto simp: notna_get_def split: option.splits)

lemma the_strs_map_Str: "the_strs (map Str ss) = Inr ss"
  by (induction ss) simp_all

lemma the_strs_append:
  "the_strs (xs @ ys) =
     (case the_strs xs of Inl e \<Rightarrow> Inl e
      | Inr a \<Rightarrow> (case the_strs ys of Inl e \<Rightarrow> Inl e | Inr b \<Rightarrow> Inr (a @ b)))"
  by (induction xs rule: the_strs.induct) (auto split: sum.splits)

lemma header_parts_strs:
  "the_strs (header_parts ns r) =
     (if text_or_missing (r ''food_description'') then Inr (header_texts ns r) else Inl TypeError)"
proof -
  have d: "the_strs (if notna_get r ''food_description'' then [the (r ''food_description'')] else [])
      = (if text_or_missing (r ''food_description'')
         then Inr (case r ''food_description'' of Some (Str s) \<Rightarrow> [s] | _ \<Rightarrow> [])
         else Inl TypeError)"
    by (auto simp: notna_get_def notna_def text_or_missing_def split: option.splits cell.splits)
  have l: "\<And>k lbl. the_strs (if notna_get r k then [Str (lbl @ py_str ns (the (r k)))] else [])
      = Inr (case r k of None \<Rightarrow> [] | Some NaN \<Rightarrow> [] | Some c \<Rightarrow> [lbl @ py_str ns c])"
    by (auto simp: notna_get_def notna_def split: option.splits cell.splits)
  show ?thesis
    unfolding header_parts_def header_texts_def
    by (simp only: the_strs_append d l) (simp split: sum.splits)
qed

lemma create_food_text_returns:
  assumes "well_typed r"
  shows "create_food_text ns r = Inr (join '' | '' (header_texts ns r @ nutrient_segment r))"
proof -
  from assms have t: "text_or_missing (r ''food_description'')"
    and f: "list_all (\<lambda>(col, name). formattable (r col)) nutrient_cols"
    by (simp_all add: well_typed_def)
  have n: "nutrient_loop r nutrient_cols [] = Inr (map nutrient_entry (qualifying r))"
    using nutrient_loop_spec [OF f, of "[]"] by (simp add: qualifying_def)
  have h: "the_strs (header_parts ns r) = Inr (header_texts ns r)"
    using t by (simp add: header_parts_strs)
  show ?thesis
    by (simp add: create_food_text_def Let_def n str_join_def the_strs_append h
          nutrient_segment_def take_map)
qed

lemma create_food_text_raises:
  assumes "\<not> well_typed r"
  shows "\<exists>e. create_food_text ns r = Inl e"
proof (cases "list_all (\<lambda>(col, name). formattable (r col)) nutrient_cols")
  case False
  from nutrient_loop_raises [OF False, of "[]"] show ?thesis
    by (auto simp: create_food_text_def Let_def)
next
  case True
  with assms have t: "\<not> text_or_missing (r ''food_description'')"
    by (simp add: well_typed_def)
  have n: "nutrient_loop r nutrient_cols [] = Inr (map nutrient_entry (qualifying r))"
    using nutrient_loop_spec [OF True, of "[]"] by (simp add: qualifying_def)
  have h: "the_strs (header_parts ns r) = Inl TypeError"
    using t by (simp add: header_parts_strs)
  show ?thesis
    by (simp add: create_food_text_def Let_def n str_join_def the_strs_append h)
qed


lemma missing_formattable: "\<not> notna_get r k \<Longrightarrow> formattable (r k)"
  by (auto simp: notna_get_def notna_def formattable_def split: option.splits cell.splits)

lemma missing_text_or_missing: "\<not> notna_get r k \<Longrightarrow> text_or_missing (r k)"
  by (auto simp: notna_get_def notna_def text_or_missing_def split: option.splits cell.splits)

lemma missing_positive_cell: "\<not> notna_get r k \<Longrightarrow> positive_cell (r k) = None"
  by (auto simp: notna_get_def notna_def positive_cell_def split: option.splits cell.splits)

lemma missing_header_text:
  "\<not> notna_get r k \<Longrightarrow> (case r k of None \<Rightarrow> [] | Some NaN \<Rightarrow> [] | Some c \<Rightarrow> [f c]) = []"
  by (auto simp: notna_get_def notna_def split: option.splits cell.splits)

lemma missing_description:
  "\<not> notna_get r k \<Longrightarrow> (case r k of Some (Str s) \<Rightarrow> [s] | _ \<Rightarrow> []) = []"
  by (auto simp: notna_get_def notna_def split: option.splits cell.splits)

lemma missing_all_formattable:
  "list_all (\<lambda>k. \<not> notna_get r k) (map fst cols)
   \<Longrightarrow> list_all (\<lambda>(col, name). formattable (r col)) cols"
  by (induction cols) (auto simp: missing_formattable)

lemma missing_none_qualifying:
  "list_all (\<lambda>k. \<not> notna_get r k) (map fst cols) \<Longrightarrow> qualifying_of r cols = []"
  by (induction cols) (auto simp: qualifying_of_Nil qualifying_of_Cons missing_positive_cell)

lemma all_missing_well_typed:
  assumes "all_missing r"
  shows "well_typed r"
proof -
  from assms have d: "\<not> notna_get r ''food_description''"
    and n: "list_all (\<lambda>k. \<not> notna_get r k) (map fst nutrient_cols)"
    by (simp_all add: all_missing_def tracked_fields_def)
  show ?thesis
    unfolding well_typed_def
    using missing_text_or_missing [OF d] missing_all_formattable [OF n] by simp
qed

lemma all_missing_empty:
  assumes "all_missing r"
  shows "header_texts ns r = []" and "qualifying r = []"
proof -
  from assms have d: "\<not> notna_get r ''food_description''"
    and c: "\<not> notna_get r ''food_common_name''"
    and g: "\<not> notna_get r ''category''"
    and b: "\<not> notna_get r ''brand_name''"
    and n: "list_all (\<lambda>k. \<not> notna_get r k) (map fst nutrient_cols)"
    by (simp_all add: all_missing_def tracked_fields_def)
  show "header_texts ns r = []"
    unfolding header_texts_def
    using missing_description [OF d]
      missing_header_text [OF c, of "\<lambda>c. ''Also known as: '' @ py_str ns c"]
      missing_header_text [OF g, of "\<lambda>c. ''Category: '' @ py_str ns c"]
      missing_header_text [OF b, of "\<lambda>c. ''Brand: '' @ py_str ns c"]
    by (simp only: append_Nil)
  show "qualifying r = []"
    unfolding qualifying_def by (rule missing_none_qualifying [OF n])
qed

lemma all_missing_text:
  assumes "all_missing r"
  shows "create_food_text ns r = Inr ''''"
  using create_food_text_returns [OF all_missing_well_typed [OF assms], of ns]
  by (simp add: all_missing_empty [OF assms] nutrient_segment_def)

subsection \<open>Evaluating the number formatting\<close>


lemma round_half_even_of_int: "round_half_even (of_int n) = n"
  by (simp add: round_half_even_def)

lemma round_half_even_near:
  assumes "\<bar>x - of_int n\<bar> < 1 / 2"
  shows "round_half_even x = n"
proof -
  from assms have "\<lfloor>x\<rfloor> = n \<or> \<lfloor>x\<rfloor> = n - 1" by linarith
  then show ?thesis
  proof
    assume f: "\<lfloor>x\<rfloor> = n"
    with assms have "x - of_int \<lfloor>x\<rfloor> < 1 / 2" by linarith
    with f show ?thesis by (simp add: round_half_even_def Let_def)
  next
    assume f: "\<lfloor>x\<rfloor> = n - 1"
    from assms have "- (1 / 2) < x - of_int n" by linarith
    then have "1 / 2 < x - of_int (n - 1)" by simp
    with f have "1 / 2 < x - of_int \<lfloor>x\<rfloor>" by simp
    then have "\<not> x - of_int \<lfloor>x\<rfloor> < 1 / 2" by linarith
    with \<open>1 / 2 < x - of_int \<lfloor>x\<rfloor>\<close> f show ?thesis
      by (simp only: round_half_even_def Let_def if_True if_False)
  qed
qed

lemma round_half_even_tie:
  assumes "x = of_int n + 1 / 2"
  shows "round_half_even x = (if even n then n else n + 1)"
proof -
  from assms have f: "\<lfloor>x\<rfloor> = n" by linarith
  with assms have "x - of_int \<lfloor>x\<rfloor> = 1 / 2" by simp
  with f show ?thesis by (simp add: round_half_even_def Let_def)
qed

lemma round_half_even_bounds: "\<lfloor>x\<rfloor> \<le> round_half_even x \<and> round_half_even x \<le> \<lfloor>x\<rfloor> + 1"
  by (simp add: round_half_even_def Let_def)

lemma round_half_even_nonneg: "0 \<le> x \<Longrightarrow> 0 \<le> round_half_even x"
proof -
  assume "0 \<le> x"
  then have "0 \<le> \<lfloor>x\<rfloor>" by simp
  with round_half_even_bounds [of x] show ?thesis by linarith
qed

lemma show_nat_numeral:
  "show_nat (numeral k) = (if (numeral k :: nat) < 10 then [digit_char (numeral k)]
     else show_nat (numeral k div 10) @ [digit_char (numeral k mod 10)])"
  by (rule show_nat.simps)

lemma show_nat_0: "show_nat 0 = ''0''"
  by (simp add: show_nat.simps digit_char_def)

lemma show_nat_1: "show_nat 1 = ''1''"
  by (simp add: show_nat.simps digit_char_def)

lemma show_nat_Suc_0: "show_nat (Suc 0) = ''1''"
  by (simp add: show_nat.simps digit_char_def)

lemmas show_nat_eval = show_nat_numeral show_nat_0 show_nat_1 show_nat_Suc_0 digit_char_def

lemma format_fixed_of_nat: "format_fixed 2 (of_nat n) = show_nat n @ ''.00''"
proof -
  have "\<bar>(of_nat n :: rat)\<bar> * 10 ^ 2 = of_int (int (n * 100))" by simp
  then have "round_half_even (\<bar>of_nat n\<bar> * 10 ^ 2) = int (n * 100)"
    by (simp only: round_half_even_of_int)
  then have "format_fixed 2 (of_nat n)
      = show_nat (n * 100 div 100) @ ''.'' @ zero_pad 2 (show_nat (n * 100 mod 100))"
    by (simp add: format_fixed_def Let_def del: of_nat_mult)
  then show ?thesis
    by (simp add: zero_pad_def show_nat_0)
qed

lemma format_fixed_numeral:
  "format_fixed 2 (numeral k) = show_nat (numeral k) @ ''.00''"
  using format_fixed_of_nat [of "numeral k"] by simp

lemma format_fixed_3456: "format_fixed 2 (432 / 125) = ''3.46''"
proof -
  have "round_half_even (\<bar>432 / 125\<bar> * 10 ^ 2) = 346"
    by (rule round_half_even_near) simp
  then show ?thesis
    by (simp add: format_fixed_def zero_pad_def show_nat_eval)
qed

lemma format_fixed_0125: "format_fixed 2 (1 / 8) = ''0.12''"
proof -
  have "round_half_even (\<bar>1 / 8\<bar> * 10 ^ 2) = (if even (12::int) then 12 else 12 + 1)"
    by (rule round_half_even_tie) simp
  then show ?thesis
    by (simp add: format_fixed_def zero_pad_def show_nat_eval)
qed

subsection \<open>Converting an integer to a float\<close>

lemma bit_length_0: "bit_length 0 = 0"
  by (simp add: bit_length.simps)

lemma bit_length_less: "n < 2 ^ k \<Longrightarrow> bit_length n \<le> k"
proof (induction k arbitrary: n)
  case 0
  then show ?case by (simp add: bit_length_0)
next
  case (Suc k)
  from Suc.prems have "n div 2 < 2 ^ k" by simp
  then have "bit_length (n div 2) \<le> k" by (rule Suc.IH)
  then show ?case by (subst bit_length.simps) simp
qed

lemma bit_length_between: "2 ^ k \<le> n \<Longrightarrow> n < 2 ^ Suc k \<Longrightarrow> bit_length n = Suc k"
proof (induction k arbitrary: n)
  case 0
  then have "n = 1" by simp
  then show ?case by (simp add: bit_length.simps [of "Suc 0"] bit_length_0)
next
  case (Suc k)
  from Suc.prems have "2 ^ k \<le> n div 2" and "n div 2 < 2 ^ Suc k" by simp_all
  then have "bit_length (n div 2) = Suc k" by (rule Suc.IH)
  moreover from Suc.prems have "n \<noteq> 0" by auto
  ultimately show ?case by (subst bit_length.simps) simp
qed

lemma float_of_int_small:
  assumes "\<bar>n\<bar> < 2 ^ 53"
  shows "float_of_int n = Inr (of_int n)"
proof -
  let ?m = "nat \<bar>n\<bar>"
  from assms have "?m < 2 ^ 53" by (simp add: nat_less_iff)
  then have "bit_length ?m \<le> 53" by (rule bit_length_less)
  then have e: "bit_length ?m - 53 = 0" by simp
  have r: "round_half_even (of_nat ?m / 2 ^ 0) = int ?m"
    using round_half_even_of_int [of "int ?m"] by simp
  have "(2::nat) ^ 53 \<le> 2 ^ 1024" by (rule power_increasing) simp_all
  with \<open>?m < 2 ^ 53\<close> have s: "\<not> 2 ^ 1024 \<le> ?m" by linarith
  show ?thesis
    unfolding float_of_int_def Let_def e r using s by (auto simp: of_nat_nat)
qed

lemma float_of_int_rounds: "float_of_int 9007199254740993 = Inr 9007199254740992"
proof -
  have b: "bit_length (nat \<bar>9007199254740993\<bar>) = Suc 53"
    by (rule bit_length_between) simp_all
  have r: "round_half_even (of_nat (nat \<bar>9007199254740993\<bar>) / 2 ^ 1)
      = (if even (4503599627370496::int) then 4503599627370496 else 4503599627370496 + 1)"
    by (rule round_half_even_tie) simp
  have "(2::nat) ^ 54 \<le> 2 ^ 1024" by (rule power_increasing) simp_all
  then have s: "\<not> (2::nat) ^ 1024 \<le> 9007199254740992" by simp
  show ?thesis
    unfolding float_of_int_def Let_def b using r s by simp
qed

lemma float_of_int_overflow: "float_of_int (2 ^ 1024) = Inl OverflowError"
proof -
  have m: "nat \<bar>2 ^ 1024 :: int\<bar> = 2 ^ 1024" by (simp add: nat_power_eq)
  have b: "bit_length (2 ^ 1024) = Suc 1024"
    by (rule bit_length_between) simp_all
  have "(of_nat (2 ^ 1024) :: rat) / 2 ^ 972 = 2 ^ (1024 - 972)"
    by (simp only: of_nat_power of_nat_numeral power_diff [symmetric])
  then have "(of_nat (2 ^ 1024) :: rat) / 2 ^ 972 = of_int (2 ^ 52)" by simp
  then have r: "round_half_even (of_nat (2 ^ 1024) / 2 ^ 972) = 2 ^ 52"
    by (simp only: round_half_even_of_int)
  have v: "nat (2 ^ 52) * 2 ^ 972 = (2::nat) ^ 1024"
    by (simp add: nat_power_eq power_add [symmetric])
  have e: "Suc 1024 - 53 = 972" by simp
  show ?thesis
    unfolding float_of_int_def Let_def m b e r v by simp
qed


subsection \<open>The shape of a value printed to two decimals\<close>

lemma digit_char_is_digit: "d < 10 \<Longrightarrow> is_digit (digit_char d)"
  unfolding is_digit_def digit_char_def by (rule nth_mem) simp

lemma show_nat_digits: "list_all is_digit (show_nat n) \<and> show_nat n \<noteq> []"
proof (induction n rule: show_nat.induct)
  case (1 n)
  show ?case
  proof (cases "n < 10")
    case True
    then show ?thesis by (subst (1 2) show_nat.simps) (simp add: digit_char_is_digit)
  next
    case False
    with 1 show ?thesis by (subst (1 2) show_nat.simps) (simp add: digit_char_is_digit)
  qed
qed

lemma show_nat_length: "n < 100 \<Longrightarrow> length (show_nat n) \<le> 2"
proof -
  assume n: "n < 100"
  then have "n div 10 < 10" by simp
  then have "length (show_nat (n div 10)) = 1" by (subst show_nat.simps) simp
  then show ?thesis by (subst show_nat.simps) simp
qed

lemma zero_pad_two:
  assumes "length s \<le> 2" and "list_all is_digit s"
  shows "\<exists>a b. zero_pad 2 s = [a, b] \<and> is_digit a \<and> is_digit b"
proof -
  have "length (zero_pad 2 s) = 2" using assms(1) by (simp add: zero_pad_def)
  then obtain a b where ab: "zero_pad 2 s = [a, b]"
    by (auto simp: length_Suc_conv numeral_2_eq_2)
  have z: "is_digit (CHR ''0'')" by (simp add: is_digit_def)
  have "list_all is_digit (replicate (2 - length s) (CHR ''0''))"
    using z by (simp add: list_all_iff)
  with assms(2) have "list_all is_digit (zero_pad 2 s)"
    by (simp add: zero_pad_def)
  with ab show ?thesis by simp
qed

lemma two_decimal_textI:
  assumes "ds \<noteq> []" and "list_all is_digit ds" and "is_digit a" and "is_digit b"
  shows "two_decimal_text (ds @ [CHR ''.'', a, b])"
  using assms by (cases ds) (simp_all add: two_decimal_text_def nth_append)

lemma format_fixed_two_decimals:
  assumes "0 \<le> x"
  shows "two_decimal_text (format_fixed 2 x)"
proof -
  define q where "q = nat (round_half_even (\<bar>x\<bar> * 10 ^ 2))"
  have "q mod 10 ^ 2 < 100" by simp
  then have "length (show_nat (q mod 10 ^ 2)) \<le> 2" by (rule show_nat_length)
  with show_nat_digits [of "q mod 10 ^ 2"] obtain a b where
    ab: "zero_pad 2 (show_nat (q mod 10 ^ 2)) = [a, b]" "is_digit a" "is_digit b"
    using zero_pad_two by blast
  from assms have "format_fixed 2 x = show_nat (q div 10 ^ 2) @ [CHR ''.'', a, b]"
    unfolding format_fixed_def Let_def q_def [symmetric] ab by simp
  with two_decimal_textI [of "show_nat (q div 10 ^ 2)" a b] show_nat_digits ab
  show ?thesis by simp
qed

lemma float_of_int_nonneg: "0 \<le> n \<Longrightarrow> float_of_int n = Inr x \<Longrightarrow> 0 \<le> x"
  by (auto simp: float_of_int_def Let_def split: if_splits)

lemma qualifying_of_mem:
  "e \<in> set (qualifying_of r cols) \<Longrightarrow> \<exists>col. (col, fst e) \<in> set cols \<and> positive_cell (r col) = Some (snd e)"
proof (induction cols)
  case Nil
  then show ?case by (simp add: qualifying_of_Nil)
next
  case (Cons p cols)
  obtain col name where p: "p = (col, name)" by (cases p)
  from Cons p show ?case
    by (cases "positive_cell (r col)") (auto simp: qualifying_of_Cons)
qed

lemma qualifying_two_decimals:
  assumes "list_all (\<lambda>(col, name). formattable (r col)) cols"
    and "e \<in> set (qualifying_of r cols)"
  shows "snd e = PosInf \<or> two_decimal_text (two_decimals (snd e))"
proof -
  from qualifying_of_mem [OF assms(2)] obtain col where
    c: "(col, fst e) \<in> set cols" and p: "positive_cell (r col) = Some (snd e)" by blast
  from assms(1) c have f: "formattable (r col)" by (auto simp: list_all_iff)
  from p have r: "r col = Some (snd e)"
    by (auto simp: positive_cell_def split: option.splits cell.splits if_splits)
  show ?thesis
  proof (cases "snd e")
    case (PyInt n)
    with p r have "0 < n" by (simp add: positive_cell_def split: if_splits)
    with f r PyInt obtain x where x: "float_of_int n = Inr x"
      by (auto simp: formattable_def split: sum.splits)
    with \<open>0 < n\<close> have "0 \<le> x" using float_of_int_nonneg [of n x] by simp
    then have "two_decimal_text (format_fixed 2 x)" by (rule format_fixed_two_decimals)
    with PyInt x show ?thesis by (simp add: two_decimals_def)
  next
    case (PyFloat x)
    with p r have "0 < x" by (simp add: positive_cell_def split: if_splits)
    then have "two_decimal_text (format_fixed 2 x)" by (simp add: format_fixed_two_decimals)
    with PyFloat show ?thesis by (simp add: two_decimals_def)
  qed (use p r in \<open>simp_all add: positive_cell_def\<close>)
qed


subsection \<open>The example records\<close>

lemma example_row_well_typed: "well_typed example_row"
  using float_of_int_small [of 3] float_of_int_rounds
  by (simp add: well_typed_def text_or_missing_def formattable_def example_row_def
        nutrient_cols_def)

lemma example_row_header: "header_texts ns example_row = [''Milk'']"
  by (simp add: header_texts_def example_row_def)

lemma example_row_qualifying:
  "qualifying example_row =
     [(''protein'', PyFloat (432 / 125)), (''fat'', PyFloat (1 / 8)),
      (''calcium'', PyInt 9007199254740993), (''vitamin C'', PyInt 3),
      (''vitamin D'', PyFloat 2), (''vitamin B12'', PyFloat 1)]"
  by (simp add: qualifying_def nutrient_cols_def qualifying_of_Cons qualifying_of_Nil
        positive_cell_def example_row_def)

lemma format_fixed_big: "format_fixed 2 9007199254740992 = ''9007199254740992.00''"
  by (simp add: format_fixed_numeral show_nat_eval)

lemma example_row_segment:
  "nutrient_segment example_row =
     [''Nutrients per 100g: protein: 3.46g/100g, fat: 0.12g/100g, calcium: 9007199254740992.00g/100g, vitamin C: 3.00g/100g, vitamin D: 2.00g/100g'']"
  using float_of_int_small [of 3] float_of_int_rounds
  by (simp add: nutrient_segment_def example_row_qualifying nutrient_entry_def two_decimals_def
        format_fixed_3456 format_fixed_0125 format_fixed_big format_fixed_numeral show_nat_eval)

lemma plain_row_well_typed: "well_typed plain_row"
  using float_of_int_small [of 7]
  by (simp add: well_typed_def text_or_missing_def formattable_def plain_row_def nutrient_cols_def)

lemma text_nutrient_row_not_well_typed: "\<not> well_typed text_nutrient_row"
  by (simp add: well_typed_def formattable_def text_nutrient_row_def nutrient_cols_def)

lemma empty_row_all_missing: "all_missing Map.empty"
  by (simp add: all_missing_def tracked_fields_def notna_get_def nutrient_cols_def)

subsection \<open>The nutrient segment\<close>

text \<open>
  Claim C4, as the code has it. On every record on which the builder returns (the
  description is a string or missing, and no nutrient column holds a string or a positive
  integer beyond the range of a float), the output is the header fields followed by the
  nutrient segment, joined by \<open>" | "\<close>. The segment lists the first (at most) five nutrients,
  in the order of the nine-element priority list, whose column is present, not missing and
  strictly positive, each as \<open>name: value\<close> followed by \<open>g/100g\<close>. When no nutrient
  qualifies the output is the joined header fields alone. Every listed value is either
  infinite (printed \<open>inf\<close>) or printed as digits, a point and two digits; an integer is
  printed as the float it converts to.
\<close>

theorem create_food_text_nutrients:
  assumes "well_typed r"
  shows "create_food_text ns r = Inr (join '' | '' (header_texts ns r @ nutrient_segment r))
       \<and> (qualifying r = [] \<longrightarrow> create_food_text ns r = Inr (join '' | '' (header_texts ns r)))
       \<and> list_all (\<lambda>e. snd e = PosInf \<or> two_decimal_text (two_decimals (snd e))) (qualifying r)"
proof -
  have eq: "create_food_text ns r = Inr (join '' | '' (header_texts ns r @ nutrient_segment r))"
    using assms by (rule create_food_text_returns)
  from assms have f: "list_all (\<lambda>(col, name). formattable (r col)) nutrient_cols"
    by (simp add: well_typed_def)
  have "list_all (\<lambda>e. snd e = PosInf \<or> two_decimal_text (two_decimals (snd e))) (qualifying r)"
    unfolding list_all_iff qualifying_def using qualifying_two_decimals [OF f] by blast
  with eq show ?thesis by (simp add: nutrient_segment_def)
qed

text \<open>
  A record with six qualifying nutrients, two absent columns, a missing value, a zero and an
  integer above \<open>2 ^ 53\<close>: five nutrients are listed, and the integer is printed as the
  float next to it.
\<close>

theorem create_food_text_nutrients_witness:
  "well_typed example_row
   \<and> create_food_text num_str_example example_row =
       Inr ''Milk | Nutrients per 100g: protein: 3.46g/100g, fat: 0.12g/100g, calcium: 9007199254740992.00g/100g, vitamin C: 3.00g/100g, vitamin D: 2.00g/100g''
   \<and> length (qualifying example_row) = 6"
  using create_food_text_nutrients [OF example_row_well_typed, of num_str_example]
  by (simp add: example_row_well_typed example_row_header example_row_segment
        example_row_qualifying)

text \<open>
  The claim as worded (every listed value has two decimal places) fails on a record whose
  protein column holds the infinite float, which the condition \<open>row[col] > 0\<close> accepts.
\<close>

theorem create_food_text_infinite_counterexample:
  "create_food_text num_str_example infinite_row = Inr ''Salt | Nutrients per 100g: protein: infg/100g''"
  by (simp add: create_food_text_def header_parts_def infinite_row_def nutrient_cols_def
        notna_get_def notna_def gt_zero_def format_2f_def str_join_def)

subsection \<open>The builder on well-typed and on malformed records\<close>

text \<open>
  Claim C8, as the code has it. The builder returns a string exactly on the records whose
  description is a string or missing and none of whose nine nutrient columns holds a string
  or a positive integer that does not convert to a float; on every other record it raises.
  When every tracked field is missing, the string returned is empty.
\<close>

theorem create_food_text_total:
  "((\<exists>s. create_food_text ns r = Inr s) \<longleftrightarrow> well_typed r)
   \<and> (all_missing r \<longrightarrow> create_food_text ns r = Inr '''')"
proof (intro conjI impI)
  show "(\<exists>s. create_food_text ns r = Inr s) \<longleftrightarrow> well_typed r"
  proof
    assume "\<exists>s. create_food_text ns r = Inr s"
    then obtain s where s: "create_food_text ns r = Inr s" by blast
    show "well_typed r"
    proof (rule ccontr)
      assume "\<not> well_typed r"
      then obtain e where "create_food_text ns r = Inl e"
        using create_food_text_raises by blast
      with s show False by simp
    qed
  next
    assume "well_typed r"
    then show "\<exists>s. create_food_text ns r = Inr s" using create_food_text_returns by blast
  qed
next
  assume "all_missing r"
  then show "create_food_text ns r = Inr ''''" by (rule all_missing_text)
qed

text \<open>
  The theorem at a record on which the builder returns, at one on which it raises, and at
  the record with no field at all.
\<close>

theorem create_food_text_total_witness:
  "well_typed plain_row
   \<and> create_food_text num_str_example plain_row
       = Inr ''Rice | Category: Grains | Nutrients per 100g: protein: 7.00g/100g''
   \<and> \<not> well_typed text_nutrient_row
   \<and> (\<forall>s. create_food_text num_str_example text_nutrient_row \<noteq> Inr s)
   \<and> all_missing Map.empty \<and> create_food_text num_str_example Map.empty = Inr ''''"
proof -
  have p: "create_food_text num_str_example plain_row
       = Inr ''Rice | Category: Grains | Nutrients per 100g: protein: 7.00g/100g''"
    using float_of_int_small [of 7]
    by (simp add: create_food_text_def header_parts_def plain_row_def nutrient_cols_def
        notna_get_def notna_def gt_zero_def format_2f_def str_join_def py_str_def
        format_fixed_numeral show_nat_eval)
  from create_food_text_total [of num_str_example plain_row]
       create_food_text_total [of num_str_example text_nutrient_row]
       create_food_text_total [of num_str_example Map.empty]
       plain_row_well_typed text_nutrient_row_not_well_typed empty_row_all_missing p
  show ?thesis by simp
qed

text \<open>
  The builder raises on malformed records: TypeError when the protein column holds text
  (the comparison \<open>row[col] > 0\<close> is between a string and an integer), TypeError when the
  description is a number (\<open>" | ".join\<close> accepts only strings), and OverflowError when the
  protein column holds the integer \<open>2 ^ 1024\<close> (the format code \<open>f\<close> converts it to a float).
\<close>

theorem create_food_text_raises_counterexample:
  "create_food_text num_str_example text_nutrient_row = Inl TypeError
   \<and> create_food_text num_str_example numeric_description_row = Inl TypeError
   \<and> create_food_text num_str_example huge_nutrient_row = Inl OverflowError"
  using float_of_int_overflow
  by (simp add: create_food_text_def header_parts_def text_nutrient_row_def
        numeric_description_row_def huge_nutrient_row_def nutrient_cols_def
        notna_get_def notna_def gt_zero_def format_2f_def str_join_def)

section \<open>Properties of the embedding generator\<close>

lemma creates_append: "creates (xs @ ys) = creates xs @ creates ys"
  by (induction xs rule: creates.induct) simp_all

lemma writes_append: "writes (xs @ ys) = writes xs @ writes ys"
  by (induction xs rule: writes.induct) simp_all

lemma written_append: "written (xs @ ys) = written xs @ written ys"
  by (induction xs rule: written.induct) simp_all

lemma creates_limit_events: "creates (limit_events l) = []"
  by (simp add: limit_events_def split: option.splits)

lemma apply_rows_returns:
  "list_all well_typed df \<Longrightarrow> apply_rows ns df = Inr (map (food_text ns) df)"
  by (induction df) (simp_all add: create_food_text_returns food_text_def)

lemma apply_rows_length: "apply_rows ns df = Inr texts \<Longrightarrow> length texts = length df"
  by (induction df arbitrary: texts) (auto split: sum.splits)

subsection \<open>A missing input\<close>

text \<open>
  Claim C6, as the code has it. When the \<open>--input\<close> path names nothing (neither a file nor
  a directory), the script prints one diagnostic and exits with status 1: the message that
  the input file was not found, or, when pandas is not installed, the message of the failed
  import. Nothing is written before the exit: the trace holds no creation of a directory
  and no write of a document.
\<close>

theorem missing_input_exits:
  assumes "fs w (e_input a) = None"
  shows "embeddings_script w a =
           ([Print (if pandas_installed w then ''Error: Input file not found: '' @ e_input a
                    else ''Error: pandas required. Install with: pip install pandas'')], Exit 1)
       \<and> exit_status (snd (embeddings_script w a)) = 1
       \<and> writes (fst (embeddings_script w a)) = []"
  using assms by (simp add: embeddings_script_def embeddings_main_def path_exists_def)

text \<open>The theorem at a path that names nothing.\<close>

theorem missing_input_exits_witness:
  "fs example_world (e_input missing_args) = None
   \<and> embeddings_script example_world missing_args
       = ([Print ''Error: Input file not found: missing.csv''], Exit 1)"
proof -
  have f: "fs example_world (e_input missing_args) = None"
    by (simp add: example_world_def missing_args_def example_args_def)
  from missing_input_exits [OF f] f show ?thesis
    by (simp add: example_world_def missing_args_def example_args_def)
qed

text \<open>
  The claim as worded (a path that does not name an existing file) fails on a path that
  names a directory: \<open>os.path.exists\<close> is true of it, so the output directory is created
  before \<open>pd.read_csv\<close> raises.
\<close>

theorem directory_input_counterexample:
  "fs example_world (e_input directory_args) = Some Directory
   \<and> embeddings_script example_world directory_args
       = ([MakeDirs ''output/embeddings'', Print ''Loading data from data...'', ReadCsv ''data''],
          Uncaught OSError)"
  by (simp add: embeddings_script_def embeddings_main_def path_exists_def read_csv_def
        output_dir_def truthy_def example_world_def directory_args_def example_args_def)

subsection \<open>A missing credential\<close>

lemma openai_no_key:
  assumes "\<not> truthy (environ w ''OPENAI_API_KEY'')"
  shows "generate_openai_embeddings w texts bs =
           (if openai_installed w then remediation
            else [Print ''Error: openai library required. Install with: pip install openai''],
            Inl (Exit 1))"
  using assms by (simp add: generate_openai_embeddings_def)

lemma process_no_key:
  assumes "\<not> e_local a" and "\<not> truthy (environ w ''OPENAI_API_KEY'')"
  shows "exit_status (snd (process w a d df)) = 1 \<and> creates (fst (process w a d df)) = []"
  using assms
  by (cases "apply_rows (float_str w) df")
     (simp_all add: process_def Let_def openai_no_key creates_append remediation_def)

lemma process_no_key_reached:
  assumes "\<not> e_local a" and "\<not> truthy (environ w ''OPENAI_API_KEY'')"
    and "list_all well_typed df"
  shows "process w a d df =
           ([Print (''Loaded '' @ show_nat (length df) @ '' food items''),
             Print ''Creating searchable text for each food item...'',
             Print ([CHR 0x0A] @ ''Using OpenAI embeddings (text-embedding-3-small)'')]
            @ (if openai_installed w then remediation
               else [Print ''Error: openai library required. Install with: pip install openai'']),
            Exit 1)"
  using assms by (simp add: process_def Let_def openai_no_key apply_rows_returns)

lemma main_no_key:
  assumes "\<not> e_local a" and "\<not> truthy (environ w ''OPENAI_API_KEY'')"
  shows "exit_status (snd (embeddings_main w a)) = 1 \<and> creates (fst (embeddings_main w a)) = []"
proof (cases "path_exists w (e_input a)")
  case False
  then show ?thesis by (simp add: embeddings_main_def)
next
  case ex: True
  show ?thesis
  proof (cases "makedirs w (output_dir a)")
    case (Some e)
    with ex show ?thesis by (simp add: embeddings_main_def)
  next
    case mk: None
    show ?thesis
    proof (cases "read_csv w (e_input a)")
      case (Inl e)
      with ex mk show ?thesis by (simp add: embeddings_main_def)
    next
      case (Inr rows)
      from process_no_key [OF assms, of "output_dir a" "limit_rows (e_limit a) rows"]
      have "exit_status (snd (process w a (output_dir a) (limit_rows (e_limit a) rows))) = 1"
        and "creates (fst (process w a (output_dir a) (limit_rows (e_limit a) rows))) = []"
        by simp_all
      with ex mk Inr show ?thesis
        by (simp add: embeddings_main_def Let_def creates_append creates_limit_events)
    qed
  qed
qed

lemma main_reached:
  assumes "makedirs w (output_dir a) = None" and "fs w (e_input a) = Some (File (Inr rows))"
  shows "embeddings_main w a =
           ([MakeDirs (output_dir a), Print (''Loading data from '' @ e_input a @ ''...''),
             ReadCsv (e_input a)] @ limit_events (e_limit a)
            @ fst (process w a (output_dir a) (limit_rows (e_limit a) rows)),
            snd (process w a (output_dir a) (limit_rows (e_limit a) rows)))"
  using assms by (simp add: embeddings_main_def Let_def path_exists_def read_csv_def)

text \<open>
  Claim C7, as the code has it. Without \<open>--local\<close> and with the variable
  \<open>OPENAI_API_KEY\<close> unset or empty, every run ends with exit status 1 and sends no batch
  to the remote service. When the run reaches the provider and the library \<open>openai\<close> is
  installed, it ends by \<open>sys.exit(1)\<close> and the last four lines printed are the remediation
  instructions.
\<close>

theorem no_credential_exits:
  assumes "\<not> e_local a" and "\<not> truthy (environ w ''OPENAI_API_KEY'')"
  shows "exit_status (snd (embeddings_script w a)) = 1
       \<and> creates (fst (embeddings_script w a)) = []
       \<and> (reaches_provider w a \<and> openai_installed w \<longrightarrow>
            snd (embeddings_script w a) = Exit 1
            \<and> (\<exists>pre. fst (embeddings_script w a) =
                  pre @ [Print ''Error: OPENAI_API_KEY environment variable not set'',
                         Print ([CHR 0x0A] @ ''To set it:''),
                         Print (''  export OPENAI_API_KEY='' @ [CHR 0x27] @ ''your-api-key-here''
                                @ [CHR 0x27]),
                         Print ([CHR 0x0A]
                                @ ''Get your API key from: https://platform.openai.com/api-keys'')]))"
proof -
  have one: "exit_status (snd (embeddings_script w a)) = 1"
    and two: "creates (fst (embeddings_script w a)) = []"
    using main_no_key [OF assms] by (simp_all add: embeddings_script_def)
  have three: "snd (embeddings_script w a) = Exit 1
      \<and> (\<exists>pre. fst (embeddings_script w a) = pre @ remediation)"
    if r: "reaches_provider w a \<and> openai_installed w"
  proof -
    from r obtain rows where f: "fs w (e_input a) = Some (File (Inr rows))"
      and wt: "list_all well_typed (limit_rows (e_limit a) rows)"
      by (auto simp: reaches_provider_def split: option.splits node.splits sum.splits)
    from r have pd: "pandas_installed w" and mk: "makedirs w (output_dir a) = None"
      and oi: "openai_installed w"
      by (simp_all add: reaches_provider_def)
    note p = process_no_key_reached [OF assms wt, of "output_dir a"]
    note m = main_reached [OF mk f]
    have s: "embeddings_script w a = embeddings_main w a"
      using pd by (simp add: embeddings_script_def)
    have "snd (embeddings_script w a) = Exit 1"
      unfolding s m p by simp
    moreover have "fst (embeddings_script w a) =
      ([MakeDirs (output_dir a), Print (''Loading data from '' @ e_input a @ ''...''),
        ReadCsv (e_input a)] @ limit_events (e_limit a)
       @ [Print (''Loaded '' @ show_nat (length (limit_rows (e_limit a) rows)) @ '' food items''),
          Print ''Creating searchable text for each food item...'',
          Print ([CHR 0x0A] @ ''Using OpenAI embeddings (text-embedding-3-small)'')])
      @ remediation"
      unfolding s m p using oi by simp
    ultimately show ?thesis by blast
  qed
  show ?thesis
    apply (intro conjI impI)
       apply (rule one)
      apply (rule two)
     apply (drule three, erule conjunct1)
    apply (drule three, drule conjunct2, unfold remediation_def, assumption)
    done
qed

lemma show_nat_2: "show_nat (Suc (Suc 0)) = ''2''"
  using show_nat.simps [of 2] by (simp add: digit_char_def numeral_2_eq_2)

lemma show_nat_3: "show_nat (Suc (Suc (Suc 0))) = ''3''"
  using show_nat.simps [of 3] by (simp add: digit_char_def numeral_3_eq_3)

lemma example_rows_well_typed:
  "well_typed apple_row" "well_typed bread_row" "well_typed cheese_row"
  by (simp_all add: well_typed_def text_or_missing_def formattable_def nutrient_cols_def
        apple_row_def bread_row_def cheese_row_def)

lemma example_rows_text:
  "create_food_text ns apple_row = Inr ''Apple''"
  "create_food_text ns bread_row = Inr ''Bread''"
  "create_food_text ns cheese_row = Inr ''Cheese''"
  by (simp_all add: create_food_text_def header_parts_def nutrient_cols_def notna_get_def
        notna_def str_join_def apple_row_def bread_row_def cheese_row_def)

text \<open>The theorem at a run that reaches the provider without a credential.\<close>

theorem no_credential_exits_witness:
  "\<not> e_local example_args \<and> \<not> truthy (environ no_key_world ''OPENAI_API_KEY'')
   \<and> reaches_provider no_key_world example_args \<and> openai_installed no_key_world
   \<and> embeddings_script no_key_world example_args =
       ([MakeDirs ''output/embeddings'', Print ''Loading data from foods.csv...'',
         ReadCsv ''foods.csv'', Print ''Limited to 2 rows'', Print ''Loaded 2 food items'',
         Print ''Creating searchable text for each food item...'',
         Print ([CHR 0x0A] @ ''Using OpenAI embeddings (text-embedding-3-small)''),
         Print ''Error: OPENAI_API_KEY environment variable not set'',
         Print ([CHR 0x0A] @ ''To set it:''),
         Print (''  export OPENAI_API_KEY='' @ [CHR 0x27] @ ''your-api-key-here'' @ [CHR 0x27]),
         Print ([CHR 0x0A] @ ''Get your API key from: https://platform.openai.com/api-keys'')],
        Exit 1)"
proof -
  have l: "\<not> e_local example_args" by (simp add: example_args_def)
  have k: "\<not> truthy (environ no_key_world ''OPENAI_API_KEY'')"
    by (simp add: no_key_world_def truthy_def)
  have r: "reaches_provider no_key_world example_args"
    by (simp add: reaches_provider_def no_key_world_def example_world_def example_args_def
          limit_rows_def head_def example_rows_well_typed)
  have o: "openai_installed no_key_world"
    by (simp add: no_key_world_def example_world_def)
  have e: "embeddings_script no_key_world example_args =
       ([MakeDirs ''output/embeddings'', Print ''Loading data from foods.csv...'',
         ReadCsv ''foods.csv'', Print ''Limited to 2 rows'', Print ''Loaded 2 food items'',
         Print ''Creating searchable text for each food item...'',
         Print ([CHR 0x0A] @ ''Using OpenAI embeddings (text-embedding-3-small)''),
         Print ''Error: OPENAI_API_KEY environment variable not set'',
         Print ([CHR 0x0A] @ ''To set it:''),
         Print (''  export OPENAI_API_KEY='' @ [CHR 0x27] @ ''your-api-key-here'' @ [CHR 0x27]),
         Print ([CHR 0x0A] @ ''Get your API key from: https://platform.openai.com/api-keys'')],
        Exit 1)"
    by (simp add: embeddings_script_def embeddings_main_def path_exists_def read_csv_def
          output_dir_def truthy_def process_def generate_openai_embeddings_def remediation_def
          limit_rows_def limit_events_def head_def show_int_def show_nat_eval show_nat_2
          example_rows_text no_key_world_def example_world_def example_args_def)
  from no_credential_exits [OF l k] l k r o e show ?thesis by simp
qed

text \<open>
  The claim as worded (the remediation instructions are printed in every such run) fails
  when the run ends before the provider is reached: with a missing input file only the
  diagnostic of the input is printed.
\<close>

theorem no_credential_missing_input_counterexample:
  "\<not> e_local missing_args \<and> environ no_key_world ''OPENAI_API_KEY'' = None
   \<and> embeddings_script no_key_world missing_args
       = ([Print ''Error: Input file not found: missing.csv''], Exit 1)"
  by (simp add: embeddings_script_def embeddings_main_def path_exists_def
        no_key_world_def example_world_def missing_args_def example_args_def)

subsection \<open>Batches of the remote provider\<close>

lemma chunk_count_covers:
  assumes "0 < b"
  shows "n \<le> chunk_count b n * b"
proof -
  from assms have "n + b - 1 < b + ((n + b - 1) div b) * b"
    by (rule dividend_less_div_times)
  then show ?thesis by (simp add: chunk_count_def)
qed

lemma chunk_count_less:
  assumes "0 < b" and "k < chunk_count b n"
  shows "k * b < n"
proof -
  from assms(2) have "Suc k \<le> (n + b - 1) div b" by (simp add: chunk_count_def)
  with assms(1) have "Suc k * b \<le> n + b - 1" by (simp add: less_eq_div_iff_mult_less_eq)
  with assms(1) show ?thesis by simp
qed

lemma concat_chunk_take: "concat (map (chunk b xs) [0 ..< m]) = take (m * b) xs"
proof (induction m)
  case 0
  show ?case by simp
next
  case (Suc m)
  have "take (m * b) xs @ take b (drop (m * b) xs) = take (m * b + b) xs"
    by (simp add: take_add)
  with Suc show ?case by (simp add: chunk_def add.commute)
qed

lemma concat_chunks:
  assumes "0 < b"
  shows "concat (chunks b xs) = xs"
  using chunk_count_covers [OF assms, of "length xs"]
  by (simp add: chunks_def concat_chunk_take)

lemma chunks_bounds:
  assumes "0 < b"
  shows "list_all (\<lambda>c. c \<noteq> [] \<and> length c \<le> b) (chunks b xs)"
proof -
  have "chunk b xs k \<noteq> [] \<and> length (chunk b xs k) \<le> b" if "k < chunk_count b (length xs)" for k
    using chunk_count_less [OF assms that] assms by (simp add: chunk_def)
  then show ?thesis by (simp add: chunks_def list_all_iff)
qed

lemma py_range_positive:
  assumes "0 < bs"
  shows "py_range n bs = Inr (map (\<lambda>k. k * nat bs) [0 ..< chunk_count (nat bs) n])"
  using assms by (simp add: py_range_def chunk_count_def)

lemma slice_take_drop:
  assumes "0 < bs"
  shows "slice texts i (int i + bs) = take (nat bs) (drop i texts)"
proof -
  from assms have "nat (int i + bs) = i + nat bs"
    by (simp add: nat_add_distrib)
  with assms show ?thesis
    by (simp add: slice_def drop_take)
qed

lemma slice_chunk:
  assumes "0 < bs"
  shows "slice texts (k * nat bs) (int (k * nat bs) + bs) = chunk (nat bs) texts k"
  unfolding chunk_def by (rule slice_take_drop [OF assms])

lemma service_answers:
  assumes "one_vector_per_text w b texts" and "k < chunk_count b (length texts)"
  shows "embeddings_create w k (chunk b texts k) = Inr (answer w b texts k)
       \<and> length (answer w b texts k) = length (chunk b texts k)"
proof -
  from assms have "case embeddings_create w k (chunk b texts k) of
      Inl e \<Rightarrow> False | Inr vs \<Rightarrow> length vs = length (chunk b texts k)"
    by (simp add: one_vector_per_text_def list_all_iff)
  then show ?thesis
    by (cases "embeddings_create w k (chunk b texts k)") (simp_all add: answer_def)
qed

lemma batch_loop_answers:
  assumes "0 < bs"
    and "\<forall>k. k0 \<le> k \<and> k < m \<longrightarrow>
           (\<exists>vs. embeddings_create w k (chunk (nat bs) texts k) = Inr vs)"
  shows "creates (fst (batch_loop w texts bs (map (\<lambda>k. k * nat bs) [k0 ..< m]) k0 acc))
           = map (chunk (nat bs) texts) [k0 ..< m]
       \<and> snd (batch_loop w texts bs (map (\<lambda>k. k * nat bs) [k0 ..< m]) k0 acc)
           = Inr (acc @ concat (map (answer w (nat bs) texts) [k0 ..< m]))"
  using assms(2)
proof (induction "m - k0" arbitrary: k0 acc)
  case 0
  then show ?case by simp
next
  case (Suc d)
  then have lt: "k0 < m" by simp
  then have u: "[k0 ..< m] = k0 # [Suc k0 ..< m]" by (rule upt_conv_Cons)
  from Suc.prems lt obtain vs where
    vs: "embeddings_create w k0 (chunk (nat bs) texts k0) = Inr vs" by blast
  have a: "answer w (nat bs) texts k0 = vs" by (simp add: answer_def vs)
  from Suc.hyps(2) have d: "d = m - Suc k0" by simp
  have r: "\<forall>k. Suc k0 \<le> k \<and> k < m \<longrightarrow>
      (\<exists>vs. embeddings_create w k (chunk (nat bs) texts k) = Inr vs)"
    using Suc.prems by simp
  note IH = Suc.hyps(1) [OF d r, of "acc @ vs"]
  obtain tr res where l:
    "batch_loop w texts bs (map (\<lambda>k. k * nat bs) [Suc k0 ..< m]) (Suc k0) (acc @ vs) = (tr, res)"
    by (cases "batch_loop w texts bs (map (\<lambda>k. k * nat bs) [Suc k0 ..< m]) (Suc k0) (acc @ vs)")
  have step: "batch_loop w texts bs (k0 * nat bs # map (\<lambda>k. k * nat bs) [Suc k0 ..< m]) k0 acc
      = (EmbeddingsCreate (chunk (nat bs) texts k0)
         # Print (''  Processed ''
                  @ show_int (min (int (k0 * nat bs) + bs) (int (length texts)))
                  @ ''/'' @ show_nat (length texts))
         # tr, res)"
    by (simp only: batch_loop.simps Let_def slice_chunk [OF assms(1)] vs sum.case l prod.case)
  from IH l have "creates tr = map (chunk (nat bs) texts) [Suc k0 ..< m]"
    and "res = Inr ((acc @ vs) @ concat (map (answer w (nat bs) texts) [Suc k0 ..< m]))"
    by simp_all
  then show ?case
    unfolding u list.map step by (simp add: a)
qed

lemma concat_map_length:
  "\<forall>k \<in> set ks. length (f k) = length (g k)
   \<Longrightarrow> length (concat (map f ks)) = length (concat (map g ks))"
  by (induction ks) simp_all

lemma concat_map_map:
  "\<forall>k \<in> set ks. f k = map h (g k) \<Longrightarrow> concat (map f ks) = map h (concat (map g ks))"
  by (induction ks) simp_all

lemma generate_openai_embeddings_result:
  assumes "0 < bs" and "openai_installed w" and "truthy (environ w ''OPENAI_API_KEY'')"
    and "one_vector_per_text w (nat bs) texts"
  shows "creates (fst (generate_openai_embeddings w texts bs)) = chunks (nat bs) texts"
    and "snd (generate_openai_embeddings w texts bs)
           = Inr (concat (map (answer w (nat bs) texts) [0 ..< chunk_count (nat bs) (length texts)]))"
    and "length (concat (map (answer w (nat bs) texts) [0 ..< chunk_count (nat bs) (length texts)]))
           = length texts"
proof -
  let ?m = "chunk_count (nat bs) (length texts)"
  have ok: "\<forall>k. 0 \<le> k \<and> k < ?m \<longrightarrow>
      (\<exists>vs. embeddings_create w k (chunk (nat bs) texts k) = Inr vs)"
    using service_answers [OF assms(4)] by blast
  note b = batch_loop_answers [OF assms(1) ok, of "[]"]
  obtain tr res where l:
    "batch_loop w texts bs (map (\<lambda>k. k * nat bs) [0 ..< ?m]) 0 [] = (tr, res)"
    by (cases "batch_loop w texts bs (map (\<lambda>k. k * nat bs) [0 ..< ?m]) 0 []")
  with b have tr: "creates tr = map (chunk (nat bs) texts) [0 ..< ?m]"
    and res: "res = Inr (concat (map (answer w (nat bs) texts) [0 ..< ?m]))"
    by simp_all
  show "creates (fst (generate_openai_embeddings w texts bs)) = chunks (nat bs) texts"
    using assms(2,3) tr res l
    by (simp add: generate_openai_embeddings_def py_range_positive [OF assms(1)] chunks_def)
  show "snd (generate_openai_embeddings w texts bs)
           = Inr (concat (map (answer w (nat bs) texts) [0 ..< ?m]))"
    using assms(2,3) tr res l
    by (simp add: generate_openai_embeddings_def py_range_positive [OF assms(1)])
  have "\<forall>k \<in> set [0 ..< ?m]. length (answer w (nat bs) texts k) = length (chunk (nat bs) texts k)"
    using service_answers [OF assms(4)] by simp
  then have "length (concat (map (answer w (nat bs) texts) [0 ..< ?m]))
      = length (concat (map (chunk (nat bs) texts) [0 ..< ?m]))"
    by (rule concat_map_length)
  also have "\<dots> = length texts"
    using concat_chunks [of "nat bs" texts] assms(1) by (simp add: chunks_def)
  finally show "length (concat (map (answer w (nat bs) texts) [0 ..< ?m])) = length texts" .
qed

text \<open>
  Claim C3. For a batch size \<open>bs > 0\<close>, with the library installed and the credential
  set, and a service that answers every batch with one vector per text, the remote provider
  returns: it sends exactly the consecutive batches of at most \<open>bs\<close> texts, one call per
  batch and in order; the batches are not empty and partition the input; the result is the
  concatenation of the answers in batch order; it has one vector per input text; and when
  every answer is the image of its batch under a function of the text, the result is the
  image of the input under that function, in input order.
\<close>

theorem generate_openai_embeddings_batches:
  assumes "0 < bs" and "openai_installed w" and "truthy (environ w ''OPENAI_API_KEY'')"
    and "one_vector_per_text w (nat bs) texts"
  shows "\<exists>tr es. generate_openai_embeddings w texts bs = (tr, Inr es)
           \<and> creates tr = chunks (nat bs) texts
           \<and> concat (chunks (nat bs) texts) = texts
           \<and> list_all (\<lambda>c. c \<noteq> [] \<and> length c \<le> nat bs) (chunks (nat bs) texts)
           \<and> es = concat (map (answer w (nat bs) texts)
                               [0 ..< chunk_count (nat bs) (length texts)])
           \<and> length es = length texts
           \<and> (\<forall>f. list_all (\<lambda>k. answer w (nat bs) texts k = map f (chunk (nat bs) texts k))
                            [0 ..< chunk_count (nat bs) (length texts)]
                  \<longrightarrow> es = map f texts)"
proof -
  let ?m = "chunk_count (nat bs) (length texts)"
  let ?es = "concat (map (answer w (nat bs) texts) [0 ..< ?m])"
  note r = generate_openai_embeddings_result [OF assms]
  from assms(1) have b: "0 < nat bs" by simp
  have e: "generate_openai_embeddings w texts bs
      = (fst (generate_openai_embeddings w texts bs), Inr ?es)"
    using r(2) by (metis prod.collapse)
  have f: "?es = map f texts"
    if "list_all (\<lambda>k. answer w (nat bs) texts k = map f (chunk (nat bs) texts k)) [0 ..< ?m]" for f
  proof -
    from that have "\<forall>k \<in> set [0 ..< ?m]. answer w (nat bs) texts k = map f (chunk (nat bs) texts k)"
      by (simp add: list_all_iff)
    then have "?es = map f (concat (map (chunk (nat bs) texts) [0 ..< ?m]))"
      by (rule concat_map_map)
    with concat_chunks [OF b, of texts] show ?thesis by (simp add: chunks_def)
  qed
  show ?thesis
    apply (rule exI [of _ "fst (generate_openai_embeddings w texts bs)"])
    apply (rule exI [of _ "?es"])
    apply (intro conjI allI impI)
          apply (rule e)
         apply (rule r(1))
        apply (rule concat_chunks [OF b])
       apply (rule chunks_bounds [OF b])
      apply (rule refl)
     apply (rule r(3))
    apply (erule f)
    done
qed

text \<open>The theorem at three texts and batch size 2.\<close>

theorem generate_openai_embeddings_batches_witness:
  "(0::int) < 2 \<and> openai_installed example_world
   \<and> truthy (environ example_world ''OPENAI_API_KEY'')
   \<and> one_vector_per_text example_world (nat 2) [''Apple'', ''Bread'', ''Cheese'']
   \<and> generate_openai_embeddings example_world [''Apple'', ''Bread'', ''Cheese''] 2 =
       ([Print ''Generating embeddings for 3 texts...'',
         EmbeddingsCreate [''Apple'', ''Bread''], Print ''  Processed 2/3'',
         EmbeddingsCreate [''Cheese''], Print ''  Processed 3/3''],
        Inr [[5, 0], [5, 0], [6, 1]])
   \<and> chunks (nat 2) [''Apple'', ''Bread'', ''Cheese''] = [[''Apple'', ''Bread''], [''Cheese'']]"
proof -
  have u: "[0 ..< 2] = [0, Suc 0]" by (simp add: upt_rec numeral_2_eq_2)
  have c: "chunk_count 2 (Suc (Suc (Suc 0))) = 2"
    by (simp add: chunk_count_def)
  have o: "openai_installed example_world" by (simp add: example_world_def)
  have k: "truthy (environ example_world ''OPENAI_API_KEY'')"
    by (simp add: example_world_def truthy_def)
  have v: "one_vector_per_text example_world (nat 2) [''Apple'', ''Bread'', ''Cheese'']"
    by (simp add: one_vector_per_text_def c u chunk_def example_world_def example_service_def
          list_all_iff)
  have ch: "chunks (nat 2) [''Apple'', ''Bread'', ''Cheese''] = [[''Apple'', ''Bread''], [''Cheese'']]"
    by (simp add: chunks_def c u chunk_def)
  have g: "generate_openai_embeddings example_world [''Apple'', ''Bread'', ''Cheese''] 2 =
       ([Print ''Generating embeddings for 3 texts...'',
         EmbeddingsCreate [''Apple'', ''Bread''], Print ''  Processed 2/3'',
         EmbeddingsCreate [''Cheese''], Print ''  Processed 3/3''],
        Inr [[5, 0], [5, 0], [6, 1]])"
    using o k
    by (simp add: generate_openai_embeddings_def py_range_def u slice_def show_int_def
          show_nat_eval show_nat_2 show_nat_3 example_world_def example_service_def)
  from generate_openai_embeddings_batches [of 2 example_world "[''Apple'', ''Bread'', ''Cheese'']"]
    o k v g ch
  show ?thesis by simp
qed

subsection \<open>An input without rows\<close>

lemma py_range_empty: "bs \<noteq> 0 \<Longrightarrow> py_range 0 bs = Inr []"
  by (simp add: py_range_def)

lemma limit_rows_empty: "limit_rows l [] = []"
  by (simp add: limit_rows_def head_def split: option.splits)

lemma process_empty:
  assumes "\<not> e_local a" and "openai_installed w" and "truthy (environ w ''OPENAI_API_KEY'')"
    and "e_batch_size a \<noteq> 0"
    and "write_json w (path_join d ''usda_embeddings.json'')
           \<lparr>doc_model = ''text-embedding-3-small'', doc_count = 0, doc_dimension = 0,
            doc_items = []\<rparr> = None"
    and "getsize w (path_join d ''usda_embeddings.json'') = Inr n"
  shows "snd (process w a d []) = Done"
    and "writes (fst (process w a d [])) =
           [WriteJson (path_join d ''usda_embeddings.json'')
              \<lparr>doc_model = ''text-embedding-3-small'', doc_count = 0, doc_dimension = 0,
               doc_items = []\<rparr>]"
    and "creates (fst (process w a d [])) = []"
proof -
  have g: "generate_openai_embeddings w [] (e_batch_size a)
      = ([Print (''Generating embeddings for '' @ show_nat 0 @ '' texts...'')], Inr [])"
    using assms(2,3,4) by (simp add: generate_openai_embeddings_def py_range_empty)
  have s: "save_embeddings w d [] [] [] ''text-embedding-3-small''
      = ([Print ([CHR 0x0A] @ ''Saving embeddings to '' @ path_join d ''usda_embeddings.json'' @ ''...''),
          WriteJson (path_join d ''usda_embeddings.json'')
            \<lparr>doc_model = ''text-embedding-3-small'', doc_count = 0, doc_dimension = 0,
             doc_items = []\<rparr>,
          Print ([CHR 0x0A] @ ''Embeddings saved: '' @ path_join d ''usda_embeddings.json'' @ '' (''
                 @ format_fixed 1 (of_nat n / (1024 * 1024)) @ '' MB)''),
          Print (''  Model: '' @ ''text-embedding-3-small''),
          Print (''  Items: '' @ show_nat 0),
          Print (''  Dimensions: '' @ show_nat 0)], Done)"
    using assms(5,6) by (simp add: save_embeddings_def Let_def dimension_def)
  have p: "process w a d [] =
      ([Print (''Loaded '' @ show_nat 0 @ '' food items''),
        Print ''Creating searchable text for each food item...'',
        Print ([CHR 0x0A] @ ''Using OpenAI embeddings (text-embedding-3-small)''),
        Print (''Generating embeddings for '' @ show_nat 0 @ '' texts...'')]
       @ fst (save_embeddings w d [] [] [] ''text-embedding-3-small''),
       snd (save_embeddings w d [] [] [] ''text-embedding-3-small''))"
    using assms(1) by (simp add: process_def Let_def g)
  show "snd (process w a d []) = Done" unfolding p s by simp
  show "writes (fst (process w a d [])) =
           [WriteJson (path_join d ''usda_embeddings.json'')
              \<lparr>doc_model = ''text-embedding-3-small'', doc_count = 0, doc_dimension = 0,
               doc_items = []\<rparr>]"
    unfolding p s by simp
  show "creates (fst (process w a d [])) = []" unfolding p s by simp
qed

lemma writes_limit_events: "writes (limit_events l) = []"
  by (simp add: limit_events_def split: option.splits)

text \<open>
  Claim C10, as the code has it. For an input file without data rows, on the remote path
  with the library installed and the credential set, a batch size other than 0, and an
  environment in which the directory can be made and the file written, the run ends
  normally, sends nothing to the service, and writes one document, whose count is 0, whose
  dimension is 0 and whose list of items is empty.
\<close>

theorem empty_dataset_completes:
  assumes "pandas_installed w" and "fs w (e_input a) = Some (File (Inr []))"
    and "makedirs w (output_dir a) = None"
    and "\<not> e_local a" and "openai_installed w" and "truthy (environ w ''OPENAI_API_KEY'')"
    and "e_batch_size a \<noteq> 0"
    and "write_json w (path_join (output_dir a) ''usda_embeddings.json'')
           \<lparr>doc_model = ''text-embedding-3-small'', doc_count = 0, doc_dimension = 0,
            doc_items = []\<rparr> = None"
    and "getsize w (path_join (output_dir a) ''usda_embeddings.json'') = Inr n"
  shows "snd (embeddings_script w a) = Done
       \<and> writes (fst (embeddings_script w a)) =
           [MakeDirs (output_dir a),
            WriteJson (path_join (output_dir a) ''usda_embeddings.json'')
              \<lparr>doc_model = ''text-embedding-3-small'', doc_count = 0, doc_dimension = 0,
               doc_items = []\<rparr>]
       \<and> creates (fst (embeddings_script w a)) = []"
proof -
  note p = process_empty [OF assms(4-9)]
  have s: "embeddings_script w a = embeddings_main w a"
    using assms(1) by (simp add: embeddings_script_def)
  note m = main_reached [OF assms(3) assms(2)]
  show ?thesis
    unfolding s m limit_rows_empty
    by (simp add: p writes_append creates_append writes_limit_events creates_limit_events)
qed

text \<open>The theorem at an input without rows and the default batch size.\<close>

theorem empty_dataset_completes_witness:
  "pandas_installed example_world \<and> fs example_world (e_input empty_args) = Some (File (Inr []))
   \<and> \<not> e_local empty_args \<and> e_batch_size empty_args \<noteq> 0
   \<and> snd (embeddings_script example_world empty_args) = Done
   \<and> writes (fst (embeddings_script example_world empty_args)) =
       [MakeDirs ''output/embeddings'',
        WriteJson ''output/embeddings/usda_embeddings.json''
          \<lparr>doc_model = ''text-embedding-3-small'', doc_count = 0, doc_dimension = 0,
           doc_items = []\<rparr>]"
proof -
  have o: "output_dir empty_args = ''output/embeddings''"
    by (simp add: output_dir_def truthy_def empty_args_def example_args_def)
  have j: "path_join ''output/embeddings'' ''usda_embeddings.json''
      = ''output/embeddings/usda_embeddings.json''"
    by (simp add: path_join_def)
  have "snd (embeddings_script example_world empty_args) = Done
       \<and> writes (fst (embeddings_script example_world empty_args)) =
           [MakeDirs (output_dir empty_args),
            WriteJson (path_join (output_dir empty_args) ''usda_embeddings.json'')
              \<lparr>doc_model = ''text-embedding-3-small'', doc_count = 0, doc_dimension = 0,
               doc_items = []\<rparr>]
       \<and> creates (fst (embeddings_script example_world empty_args)) = []"
    by (rule empty_dataset_completes [where n = 2097152])
       (simp_all add: example_world_def empty_args_def example_args_def truthy_def)
  then show ?thesis
    unfolding o j by (simp add: example_world_def empty_args_def example_args_def)
qed

text \<open>
  The claim as worded fails for \<open>--batch-size 0\<close>: \<open>range(0, 0, 0)\<close> raises ValueError, also
  when there is no row, and nothing is written.
\<close>

theorem zero_batch_size_counterexample:
  "fs example_world (e_input zero_batch_args) = Some (File (Inr []))
   \<and> embeddings_script example_world zero_batch_args =
       ([MakeDirs ''output/embeddings'', Print ''Loading data from empty.csv...'',
         ReadCsv ''empty.csv'', Print ''Loaded 0 food items'',
         Print ''Creating searchable text for each food item...'',
         Print ([CHR 0x0A] @ ''Using OpenAI embeddings (text-embedding-3-small)''),
         Print ''Generating embeddings for 0 texts...''],
        Uncaught ValueError)"
  by (simp add: embeddings_script_def embeddings_main_def path_exists_def read_csv_def
        output_dir_def truthy_def process_def generate_openai_embeddings_def py_range_def
        limit_rows_def limit_events_def show_nat_eval
        example_world_def zero_batch_args_def empty_args_def example_args_def)

subsection \<open>The row limit\<close>

lemma build_items_result:
  assumes "i + length rs \<le> length texts" and "i + length rs \<le> length embeddings"
  shows "\<exists>items. build_items ns texts embeddings i rs = Inr items
           \<and> map item_text items = take (length rs) (drop i texts)"
  using assms
proof (induction rs arbitrary: i)
  case Nil
  show ?case by simp
next
  case (Cons r rs)
  from Cons.prems have i: "i < length texts" "i < length embeddings" by simp_all
  from Cons.prems have "Suc i + length rs \<le> length texts" "Suc i + length rs \<le> length embeddings"
    by simp_all
  from Cons.IH [OF this] obtain items where
    items: "build_items ns texts embeddings (Suc i) rs = Inr items"
      "map item_text items = take (length rs) (drop (Suc i) texts)" by blast
  from i have "drop i texts = texts ! i # drop (Suc i) texts"
    by (simp add: Cons_nth_drop_Suc)
  with i items show ?case by simp
qed

lemma written_batch_loop: "written (fst (batch_loop w texts bs idx k acc)) = []"
proof (induction idx arbitrary: k acc)
  case Nil
  show ?case by simp
next
  case (Cons i idx)
  show ?case
  proof (cases "embeddings_create w k (slice texts i (int i + bs))")
    case (Inl e)
    then show ?thesis by (simp add: Let_def)
  next
    case (Inr vs)
    obtain tr res where l: "batch_loop w texts bs idx (Suc k) (acc @ vs) = (tr, res)"
      by (cases "batch_loop w texts bs idx (Suc k) (acc @ vs)")
    with Cons.IH [of "Suc k" "acc @ vs"] have "written tr = []" by simp
    with Inr l show ?thesis by (simp add: Let_def)
  qed
qed

lemma written_openai: "written (fst (generate_openai_embeddings w texts bs)) = []"
proof -
  have "written (fst (case batch_loop w texts bs idx 0 [] of
            (tr, Inl e) \<Rightarrow> (s # tr, Inl (Uncaught e))
          | (tr, Inr embeddings) \<Rightarrow> (s # tr, Inr embeddings))) = written [s]" for idx s
    using written_batch_loop [of w texts bs idx 0 "[]"]
    by (cases "batch_loop w texts bs idx 0 []"; cases "snd (batch_loop w texts bs idx 0 [])")
       (cases s; simp)+
  then show ?thesis
    by (simp add: generate_openai_embeddings_def remediation_def Let_def split: sum.splits)
qed

lemma save_embeddings_success:
  assumes "length texts = length df" and "length embeddings = length df"
    and "\<forall>doc. write_json w (path_join d ''usda_embeddings.json'') doc = None"
    and "getsize w (path_join d ''usda_embeddings.json'') = Inr n"
  shows "snd (save_embeddings w d df texts embeddings model_name) = Done
       \<and> creates (fst (save_embeddings w d df texts embeddings model_name)) = []
       \<and> (\<exists>doc. written (fst (save_embeddings w d df texts embeddings model_name)) = [doc]
              \<and> doc_count doc = length df \<and> map item_text (doc_items doc) = texts)"
proof -
  from build_items_result [of 0 df texts embeddings "float_str w"] assms(1,2)
  obtain items where items: "build_items (float_str w) texts embeddings 0 df = Inr items"
    "map item_text items = texts" by auto
  show ?thesis
    using assms items by (simp add: save_embeddings_def Let_def)
qed

lemma process_remote_success:
  assumes "\<not> e_local a" and "openai_installed w" and "truthy (environ w ''OPENAI_API_KEY'')"
    and "0 < e_batch_size a" and "list_all well_typed df"
    and "one_vector_per_text w (nat (e_batch_size a)) (map (food_text (float_str w)) df)"
    and "\<forall>doc. write_json w (path_join d ''usda_embeddings.json'') doc = None"
    and "getsize w (path_join d ''usda_embeddings.json'') = Inr n"
  shows "snd (process w a d df) = Done
       \<and> concat (creates (fst (process w a d df))) = map (food_text (float_str w)) df
       \<and> (\<exists>doc. written (fst (process w a d df)) = [doc]
              \<and> doc_count doc = length df
              \<and> map item_text (doc_items doc) = map (food_text (float_str w)) df)"
proof -
  let ?texts = "map (food_text (float_str w)) df"
  let ?bs = "e_batch_size a"
  let ?es = "concat (map (answer w (nat ?bs) ?texts) [0 ..< chunk_count (nat ?bs) (length ?texts)])"
  let ?g = "generate_openai_embeddings w ?texts ?bs"
  let ?s = "save_embeddings w d df ?texts ?es ''text-embedding-3-small''"
  have t: "apply_rows (float_str w) df = Inr ?texts"
    using assms(5) by (rule apply_rows_returns)
  note g = generate_openai_embeddings_result [OF assms(4) assms(2) assms(3) assms(6)]
  from g(3) have le: "length ?es = length df" by simp
  have lt: "length ?texts = length df" by simp
  note s = save_embeddings_success [OF lt le assms(7) assms(8), of "''text-embedding-3-small''"]
  have p: "process w a d df =
      ([Print (''Loaded '' @ show_nat (length df) @ '' food items''),
        Print ''Creating searchable text for each food item...'',
        Print ([CHR 0x0A] @ ''Using OpenAI embeddings (text-embedding-3-small)'')]
       @ fst ?g @ fst ?s, snd ?s)"
    using assms(1) by (simp add: process_def Let_def t g(2))
  from assms(4) have b: "0 < nat ?bs" by simp
  have c: "concat (creates (fst (process w a d df))) = ?texts"
    unfolding p using s concat_chunks [OF b, of ?texts]
    by (simp add: creates_append g(1))
  have w: "written (fst (process w a d df)) = written (fst ?s)"
    unfolding p by (simp add: written_append written_openai)
  from s c w p show ?thesis by simp
qed

lemma format_fixed_megabytes: "format_fixed 1 2 = ''2.0''"
proof -
  have "round_half_even (\<bar>2\<bar> * 10 ^ 1) = 20"
    using round_half_even_of_int [of 20] by simp
  then show ?thesis
    by (simp add: format_fixed_def zero_pad_def show_nat_eval)
qed

lemma format_fixed_megabytes_Suc: "format_fixed (Suc 0) 2 = ''2.0''"
  using format_fixed_megabytes by simp

lemma example_rows_fdc_id:
  "apple_row ''fdc_id'' = Some (PyInt 1)"
  "bread_row ''fdc_id'' = Some (PyInt 2)"
  "cheese_row ''fdc_id'' = None"
  by (simp_all add: apple_row_def bread_row_def cheese_row_def)

lemma example_run:
  "embeddings_script example_world example_args =
     ([MakeDirs ''output/embeddings'', Print ''Loading data from foods.csv...'',
       ReadCsv ''foods.csv'', Print ''Limited to 2 rows'', Print ''Loaded 2 food items'',
       Print ''Creating searchable text for each food item...'',
       Print ([CHR 0x0A] @ ''Using OpenAI embeddings (text-embedding-3-small)''),
       Print ''Generating embeddings for 2 texts...'',
       EmbeddingsCreate [''Apple''], Print ''  Processed 1/2'',
       EmbeddingsCreate [''Bread''], Print ''  Processed 2/2'',
       Print ([CHR 0x0A] @ ''Saving embeddings to output/embeddings/usda_embeddings.json...''),
       WriteJson ''output/embeddings/usda_embeddings.json''
         \<lparr>doc_model = ''text-embedding-3-small'', doc_count = 2, doc_dimension = 2,
          doc_items = [\<lparr>item_fdc_id = ''1'', item_text = ''Apple'', item_embedding = [5, 0]\<rparr>,
                       \<lparr>item_fdc_id = ''2'', item_text = ''Bread'', item_embedding = [5, 1]\<rparr>]\<rparr>,
       Print ([CHR 0x0A] @ ''Embeddings saved: output/embeddings/usda_embeddings.json (2.0 MB)''),
       Print ''  Model: text-embedding-3-small'',
       Print ''  Items: 2'',
       Print ''  Dimensions: 2''],
      Done)"
proof -
  have u: "[0 ..< 2] = [0, Suc 0]" by (simp add: upt_rec numeral_2_eq_2)
  show ?thesis
    by (simp add: embeddings_script_def embeddings_main_def path_exists_def read_csv_def
          output_dir_def truthy_def process_def generate_openai_embeddings_def py_range_def
          save_embeddings_def dimension_def path_join_def py_str_def
          limit_rows_def limit_events_def head_def slice_def u show_int_def show_nat_eval
          show_nat_2 format_fixed_megabytes_Suc example_rows_text
          example_world_def example_service_def example_args_def example_rows_fdc_id)
qed

subsection \<open>The row limit, end to end\<close>

text \<open>
  Claim C1, as the code has it. For a limit \<open>n\<close> with \<open>0 < n\<close> smaller than the number of
  rows of the input, the frame is cut to its first \<open>n\<close> rows, and the rest of the run (text
  building, embedding, output assembly) is the run of \<open>process\<close> on these \<open>n\<close> rows. End to
  end on the remote path: when the builder returns on these rows, the service answers every
  batch with one vector per text and the file can be written, the run ends normally, the
  texts sent to the service are those of the first \<open>n\<close> rows in order, and the document
  written has count \<open>n\<close> and the same texts as its items.
\<close>

theorem limit_truncates:
  assumes "pandas_installed w" and "fs w (e_input a) = Some (File (Inr rows))"
    and "makedirs w (output_dir a) = None"
    and "e_limit a = Some n" and "0 < n" and "n < int (length rows)"
  shows "limit_rows (e_limit a) rows = take (nat n) rows
       \<and> length (take (nat n) rows) = nat n
       \<and> embeddings_script w a =
           ([MakeDirs (output_dir a), Print (''Loading data from '' @ e_input a @ ''...''),
             ReadCsv (e_input a), Print (''Limited to '' @ show_int n @ '' rows'')]
            @ fst (process w a (output_dir a) (take (nat n) rows)),
            snd (process w a (output_dir a) (take (nat n) rows)))
       \<and> (\<not> e_local a \<and> openai_installed w \<and> truthy (environ w ''OPENAI_API_KEY'')
            \<and> 0 < e_batch_size a \<and> list_all well_typed (take (nat n) rows)
            \<and> one_vector_per_text w (nat (e_batch_size a))
                  (map (food_text (float_str w)) (take (nat n) rows))
            \<and> (\<forall>doc. write_json w (path_join (output_dir a) ''usda_embeddings.json'') doc = None)
            \<and> (\<exists>bytes. getsize w (path_join (output_dir a) ''usda_embeddings.json'') = Inr bytes)
          \<longrightarrow> snd (embeddings_script w a) = Done
            \<and> concat (creates (fst (embeddings_script w a)))
                = map (food_text (float_str w)) (take (nat n) rows)
            \<and> (\<exists>doc. written (fst (embeddings_script w a)) = [doc]
                   \<and> doc_count doc = nat n
                   \<and> map item_text (doc_items doc)
                       = map (food_text (float_str w)) (take (nat n) rows)))"
proof -
  let ?df = "take (nat n) rows"
  from assms(4,5) have l: "limit_rows (e_limit a) rows = ?df"
    by (simp add: limit_rows_def head_def)
  from assms(5,6) have len: "length ?df = nat n" by simp
  from assms(4,5) have le: "limit_events (e_limit a) = [Print (''Limited to '' @ show_int n @ '' rows'')]"
    by (simp add: limit_events_def)
  have s: "embeddings_script w a = embeddings_main w a"
    using assms(1) by (simp add: embeddings_script_def)
  have m: "embeddings_script w a =
           ([MakeDirs (output_dir a), Print (''Loading data from '' @ e_input a @ ''...''),
             ReadCsv (e_input a), Print (''Limited to '' @ show_int n @ '' rows'')]
            @ fst (process w a (output_dir a) ?df),
            snd (process w a (output_dir a) ?df))"
    unfolding s main_reached [OF assms(3) assms(2)] l le by simp
  have e: "snd (embeddings_script w a) = Done
            \<and> concat (creates (fst (embeddings_script w a))) = map (food_text (float_str w)) ?df
            \<and> (\<exists>doc. written (fst (embeddings_script w a)) = [doc]
                   \<and> doc_count doc = nat n
                   \<and> map item_text (doc_items doc) = map (food_text (float_str w)) ?df)"
    if h: "\<not> e_local a \<and> openai_installed w \<and> truthy (environ w ''OPENAI_API_KEY'')
            \<and> 0 < e_batch_size a \<and> list_all well_typed ?df
            \<and> one_vector_per_text w (nat (e_batch_size a)) (map (food_text (float_str w)) ?df)
            \<and> (\<forall>doc. write_json w (path_join (output_dir a) ''usda_embeddings.json'') doc = None)
            \<and> (\<exists>bytes. getsize w (path_join (output_dir a) ''usda_embeddings.json'') = Inr bytes)"
  proof -
    from h obtain bytes where
      g: "getsize w (path_join (output_dir a) ''usda_embeddings.json'') = Inr bytes" by blast
    from h have "\<not> e_local a" "openai_installed w" "truthy (environ w ''OPENAI_API_KEY'')"
      "0 < e_batch_size a" "list_all well_typed ?df"
      "one_vector_per_text w (nat (e_batch_size a)) (map (food_text (float_str w)) ?df)"
      "\<forall>doc. write_json w (path_join (output_dir a) ''usda_embeddings.json'') doc = None"
      by simp_all
    from process_remote_success [OF this g]
    have p: "snd (process w a (output_dir a) ?df) = Done"
      "concat (creates (fst (process w a (output_dir a) ?df))) = map (food_text (float_str w)) ?df"
      "\<exists>doc. written (fst (process w a (output_dir a) ?df)) = [doc]
              \<and> doc_count doc = length ?df
              \<and> map item_text (doc_items doc) = map (food_text (float_str w)) ?df"
      by simp_all
    show ?thesis
      unfolding m using p len by (simp add: creates_append written_append)
  qed
  show ?thesis
    apply (intro conjI impI)
         apply (rule l)
        apply (rule len)
       apply (rule m)
      apply (drule e, erule conjunct1)
     apply (drule e, drule conjunct2, erule conjunct1)
    apply (drule e, drule conjunct2, erule conjunct2)
    done
qed

lemma example_service_answers: "one_vector_per_text example_world b texts"
  by (simp add: one_vector_per_text_def example_world_def example_service_def list_all_iff)

text \<open>The theorem at three rows and \<open>--limit 2\<close>.\<close>

theorem limit_truncates_witness:
  "pandas_installed example_world
   \<and> fs example_world (e_input example_args) = Some (File (Inr [apple_row, bread_row, cheese_row]))
   \<and> e_limit example_args = Some 2
   \<and> limit_rows (e_limit example_args) [apple_row, bread_row, cheese_row] = [apple_row, bread_row]
   \<and> snd (embeddings_script example_world example_args) = Done
   \<and> creates (fst (embeddings_script example_world example_args)) = [[''Apple''], [''Bread'']]
   \<and> written (fst (embeddings_script example_world example_args)) =
       [\<lparr>doc_model = ''text-embedding-3-small'', doc_count = 2, doc_dimension = 2,
         doc_items = [\<lparr>item_fdc_id = ''1'', item_text = ''Apple'', item_embedding = [5, 0]\<rparr>,
                      \<lparr>item_fdc_id = ''2'', item_text = ''Bread'', item_embedding = [5, 1]\<rparr>]\<rparr>]"
proof -
  let ?rows = "[apple_row, bread_row, cheese_row]"
  have p: "pandas_installed example_world" by (simp add: example_world_def)
  have f: "fs example_world (e_input example_args) = Some (File (Inr ?rows))"
    by (simp add: example_world_def example_args_def)
  have m: "makedirs example_world (output_dir example_args) = None"
    by (simp add: example_world_def)
  have l: "e_limit example_args = Some 2" by (simp add: example_args_def)
  have n: "(0::int) < 2" and k: "2 < int (length ?rows)" by simp_all
  note t = limit_truncates [OF p f m l n k]
  have h: "\<not> e_local example_args \<and> openai_installed example_world
      \<and> truthy (environ example_world ''OPENAI_API_KEY'')
      \<and> 0 < e_batch_size example_args \<and> list_all well_typed (take (nat 2) ?rows)
      \<and> one_vector_per_text example_world (nat (e_batch_size example_args))
            (map (food_text (float_str example_world)) (take (nat 2) ?rows))
      \<and> (\<forall>doc. write_json example_world
                   (path_join (output_dir example_args) ''usda_embeddings.json'') doc = None)
      \<and> (\<exists>bytes. getsize example_world
                   (path_join (output_dir example_args) ''usda_embeddings.json'') = Inr bytes)"
    unfolding example_args_def
    by (simp add: example_service_answers example_rows_well_typed)
       (simp add: example_world_def truthy_def)
  from t have "limit_rows (e_limit example_args) ?rows = take (nat 2) ?rows" by (rule conjunct1)
  then have lim: "limit_rows (e_limit example_args) ?rows = [apple_row, bread_row]" by simp
  from t [THEN conjunct2, THEN conjunct2, THEN conjunct2, rule_format, OF h]
  have d: "snd (embeddings_script example_world example_args) = Done" by (rule conjunct1)
  from p f l lim d show ?thesis by (simp add: example_run)
qed

text \<open>
  The claim as worded fails for \<open>--limit 0\<close>: the test \<open>if args.limit\<close> is false of 0, so all
  three rows of the input are processed.
\<close>

theorem zero_limit_counterexample:
  "e_limit zero_limit_args = Some 0
   \<and> fs example_world (e_input zero_limit_args) = Some (File (Inr [apple_row, bread_row, cheese_row]))
   \<and> creates (fst (embeddings_script example_world zero_limit_args))
       = [[''Apple'', ''Bread''], [''Cheese'']]
   \<and> map doc_count (written (fst (embeddings_script example_world zero_limit_args))) = [3]"
proof -
  have u: "[0 ..< 2] = [0, Suc 0]" by (simp add: upt_rec numeral_2_eq_2)
  show ?thesis
    by (simp add: embeddings_script_def embeddings_main_def path_exists_def read_csv_def
          output_dir_def truthy_def process_def generate_openai_embeddings_def py_range_def
          save_embeddings_def dimension_def path_join_def py_str_def
          limit_rows_def limit_events_def slice_def u show_int_def show_nat_eval
          show_nat_2 show_nat_3 format_fixed_megabytes_Suc example_rows_text
          example_world_def example_service_def zero_limit_args_def example_args_def
          example_rows_fdc_id)
qed

section \<open>Properties of the query tool\<close>

lemma requests_of_append: "requests_of (xs @ ys) = requests_of xs @ requests_of ys"
  by (induction xs rule: requests_of.induct) auto

lemma requests_of_print_products: "requests_of (fst (print_products str i ps)) = []"
  by (induction str i ps rule: print_products.induct) (auto simp: Let_def split: sum.splits prod.splits)

lemma requests_of_present_results: "requests_of (fst (present_results w j r)) = []"
proof -
  have "requests_of tr = []" if "print_products (str_of w) 1 ps = (tr, x)" for ps tr x
    using requests_of_print_products [of "str_of w" 1 ps] that by simp
  then show ?thesis
    by (auto simp: present_results_def Let_def split: json.splits sum.splits prod.splits option.splits)
qed

lemma requests_of_present_label: "requests_of (present_label w j r) = []"
  by (simp add: present_label_def)

lemma requests_of_handle_error: "requests_of (fst (handle_error w e)) = []"
  by (simp add: handle_error_def)

lemma requests_of_run_search: "requests_of (fst (run_search w j msg (req, res))) = [req]"
proof (cases res)
  case (Inl e)
  with requests_of_handle_error [of w e] show ?thesis
    by (auto simp: run_search_def split: prod.splits)
next
  case (Inr result)
  obtain tr r where p: "present_results w j result = (tr, r)" by (cases "present_results w j result")
  with requests_of_present_results [of w j result] have tr: "requests_of tr = []" by simp
  show ?thesis
  proof (cases r)
    case None
    with Inr p tr show ?thesis by (simp add: run_search_def requests_of_append)
  next
    case (Some e)
    with Inr p tr requests_of_handle_error [of w e] show ?thesis
      by (auto simp: run_search_def requests_of_append split: prod.splits)
  qed
qed

lemma requests_of_run_label: "requests_of (fst (run_label w j msg (req, res))) = [req]"
proof (cases res)
  case (Inl e)
  with requests_of_handle_error [of w e] show ?thesis
    by (auto simp: run_label_def split: prod.splits)
next
  case (Inr result)
  then show ?thesis by (simp add: run_label_def requests_of_append requests_of_present_label)
qed

lemma requests_of_help: "requests_of help_events = []"
  by (simp add: help_events_def)

lemma call_pairs:
  "get_product_label w x = (fst (get_product_label w x), snd (get_product_label w x))"
  "search_by_ingredient w x l = (fst (search_by_ingredient w x l), snd (search_by_ingredient w x l))"
  "search_by_brand w x l = (fst (search_by_brand w x l), snd (search_by_brand w x l))"
  "search_products w x l = (fst (search_products w x l), snd (search_products w x l))"
  by simp_all

subsection \<open>One request per run, chosen by precedence\<close>

text \<open>
  Claim C9, as the code has it. Every run of the query tool issues at most one HTTP request:
  the request of the first flag, in the order label, ingredient, brand, product, that holds a
  non-empty value; the flags after it are ignored. When at least one flag holds a non-empty
  value, exactly one request is issued. A flag given with an empty value counts as absent.
\<close>

theorem query_main_one_request:
  "requests_of (fst (query_main w a))
     = (case chosen_request w a of None \<Rightarrow> [] | Some r \<Rightarrow> [r])
   \<and> (truthy (q_label a) \<or> truthy (q_ingredient a) \<or> truthy (q_brand a) \<or> truthy (q_product a)
        \<longrightarrow> length (requests_of (fst (query_main w a))) = 1)"
proof -
  have l: "requests_of (fst (run_label w j m (get_product_label w x))) = [fst (get_product_label w x)]"
    for j m x by (subst call_pairs(1)) (rule requests_of_run_label)
  have i: "requests_of (fst (run_search w j m (search_by_ingredient w x n)))
             = [fst (search_by_ingredient w x n)]" for j m x n
    by (subst call_pairs(2)) (rule requests_of_run_search)
  have b: "requests_of (fst (run_search w j m (search_by_brand w x n)))
             = [fst (search_by_brand w x n)]" for j m x n
    by (subst call_pairs(3)) (rule requests_of_run_search)
  have p: "requests_of (fst (run_search w j m (search_products w x n)))
             = [fst (search_products w x n)]" for j m x n
    by (subst call_pairs(4)) (rule requests_of_run_search)
  show ?thesis
    by (simp add: query_main_def chosen_request_def precedence_def requests_of_help l i b p)
qed


theorem query_main_one_request_witness:
  "(truthy (q_label two_flags) \<or> truthy (q_ingredient two_flags) \<or> truthy (q_brand two_flags)
      \<or> truthy (q_product two_flags))
   \<and> requests_of (fst (query_main example_net two_flags))
       = [\<lparr>url = ''https://api.ods.od.nih.gov/dsld/v9/label/123456'', params = [], timeout = 30\<rparr>]
   \<and> length (requests_of (fst (query_main example_net two_flags))) = 1"
  using query_main_one_request [of example_net two_flags]
  by (simp add: chosen_request_def precedence_def two_flags_def truthy_def
        get_product_label_def DSLD_BASE_URL_def Let_def)

text \<open>
  Two flags are supplied, both with an empty value: the run prints the help text, exits with
  status 0 and issues no request at all.
\<close>

theorem query_main_empty_flags_counterexample:
  "q_label two_empty_flags = Some '''' \<and> q_brand two_empty_flags = Some ''''
   \<and> requests_of (fst (query_main example_net two_empty_flags)) = []
   \<and> snd (query_main example_net two_empty_flags) = Exit 0"
  by (simp add: query_main_def two_empty_flags_def truthy_def help_events_def)

subsection \<open>The limit as page size\<close>

text \<open>
  Claim C2, as the code has it. The three search operations (by product name, by ingredient,
  by brand) take a limit that defaults to 10 and send it as the query parameter
  \<open>pagesize\<close>. The label operation takes no limit and sends no query parameter. All four
  requests carry the timeout 30.
\<close>

theorem search_limit_is_pagesize:
  "map_of (params (fst (search_products w q limit))) ''pagesize''
     = Some (PInt (limit_or_default limit))
   \<and> map_of (params (fst (search_by_ingredient w q limit))) ''pagesize''
     = Some (PInt (limit_or_default limit))
   \<and> map_of (params (fst (search_by_brand w q limit))) ''pagesize''
     = Some (PInt (limit_or_default limit))
   \<and> limit_or_default None = 10
   \<and> params (fst (get_product_label w q)) = []
   \<and> timeout (fst (search_products w q limit)) = 30
   \<and> timeout (fst (search_by_ingredient w q limit)) = 30
   \<and> timeout (fst (search_by_brand w q limit)) = 30
   \<and> timeout (fst (get_product_label w q)) = 30"
  by (simp add: search_products_def search_by_ingredient_def search_by_brand_def
        get_product_label_def limit_or_default_def Let_def)

theorem search_limit_is_pagesize_witness:
  "map_of (params (fst (search_products example_net ''fish oil'' None))) ''pagesize''
     = Some (PInt 10)
   \<and> map_of (params (fst (search_by_brand example_net ''nature made'' (Some 5)))) ''pagesize''
     = Some (PInt 5)
   \<and> params (fst (get_product_label example_net ''123456'')) = []"
  using search_limit_is_pagesize [of example_net "''fish oil''" None]
        search_limit_is_pagesize [of example_net "''nature made''" "Some 5"]
        search_limit_is_pagesize [of example_net "''123456''" None]
  by (simp add: limit_or_default_def)

text \<open>The request of the label operation has no \<open>pagesize\<close> parameter.\<close>

theorem get_product_label_no_pagesize_counterexample:
  "map_of (params (fst (get_product_label example_net ''123456''))) ''pagesize'' = None"
  by (simp add: get_product_label_def Let_def)



subsection \<open>The formatted product\<close>

lemma split_lines_single: "CHR 0x0A \<notin> set a \<Longrightarrow> split_lines a = [a]"
  by (induction a) auto

lemma split_lines_break:
  "CHR 0x0A \<notin> set a \<Longrightarrow> split_lines (a @ CHR 0x0A # b) = a # split_lines b"
  by (induction a) auto

lemma format_product_text:
  "format_product str product =
     Inr (''  ID: '' @ field_text str product ''dsld_id'' @ [CHR 0x0A]
          @ ''  Name: '' @ field_text str product ''product_name'' @ [CHR 0x0A]
          @ ''  Brand: '' @ field_text str product ''brand_name'' @ [CHR 0x0A]
          @ ''  Type: '' @ field_text str product ''product_type''
          @ (case product ''serving_size'' of None \<Rightarrow> []
             | Some v \<Rightarrow> [CHR 0x0A] @ ''  Serving: '' @ str v))"
  by (cases "product ''serving_size''")
     (simp_all add: format_product_def format_product_lines_def get_str_def subscript_def
        field_text_def newline_def)

text \<open>
  Claim C5, as the code has it. For every product dictionary \<open>format_product\<close> returns (it
  never raises): the text is the ID, Name, Brand and Type lines, each with \<open>N/A\<close> for an
  absent key, separated by the line-break character, followed by a line break and the
  Serving line when the key \<open>serving_size\<close> is present. When none of the shown values
  contains a line break, the lines of the emitted text are exactly these four or five, and a
  line starting with \<open>Serving\<close> (after the indentation) occurs among them if and only if
  \<open>serving_size\<close> is a key.
\<close>

theorem format_product_placeholder:
  "(\<exists>out. format_product str product = Inr out
      \<and> out = ''  ID: '' @ field_text str product ''dsld_id'' @ [CHR 0x0A]
              @ ''  Name: '' @ field_text str product ''product_name'' @ [CHR 0x0A]
              @ ''  Brand: '' @ field_text str product ''brand_name'' @ [CHR 0x0A]
              @ ''  Type: '' @ field_text str product ''product_type''
              @ (case product ''serving_size'' of None \<Rightarrow> []
                 | Some v \<Rightarrow> [CHR 0x0A] @ ''  Serving: '' @ str v)
      \<and> (single_line_fields str product \<longrightarrow>
           split_lines out =
             [''  ID: '' @ field_text str product ''dsld_id'',
              ''  Name: '' @ field_text str product ''product_name'',
              ''  Brand: '' @ field_text str product ''brand_name'',
              ''  Type: '' @ field_text str product ''product_type'']
             @ (case product ''serving_size'' of None \<Rightarrow> []
                | Some v \<Rightarrow> [''  Serving: '' @ str v])
           \<and> (list_ex serving_line (split_lines out) \<longleftrightarrow> product ''serving_size'' \<noteq> None)))"
proof -
  let ?i = "''  ID: '' @ field_text str product ''dsld_id''"
  let ?n = "''  Name: '' @ field_text str product ''product_name''"
  let ?b = "''  Brand: '' @ field_text str product ''brand_name''"
  let ?t = "''  Type: '' @ field_text str product ''product_type''"
  let ?s = "case product ''serving_size'' of None \<Rightarrow> [] | Some v \<Rightarrow> [CHR 0x0A] @ ''  Serving: '' @ str v"
  let ?out = "?i @ [CHR 0x0A] @ ?n @ [CHR 0x0A] @ ?b @ [CHR 0x0A] @ ?t @ ?s"
  have out: "format_product str product = Inr ?out"
    using format_product_text [of str product] by simp
  have lines: "split_lines ?out = [?i, ?n, ?b, ?t]
        @ (case product ''serving_size'' of None \<Rightarrow> [] | Some v \<Rightarrow> [''  Serving: '' @ str v])"
    if s: "single_line_fields str product"
  proof -
    from s have i: "CHR 0x0A \<notin> set ?i" and n: "CHR 0x0A \<notin> set ?n"
      and b: "CHR 0x0A \<notin> set ?b" and t: "CHR 0x0A \<notin> set ?t"
      by (simp_all add: single_line_fields_def shown_fields_def)
    show ?thesis
    proof (cases "product ''serving_size''")
      case None
      have "split_lines (?i @ CHR 0x0A # ?n @ CHR 0x0A # ?b @ CHR 0x0A # ?t) = [?i, ?n, ?b, ?t]"
        by (simp only: split_lines_break [OF i] split_lines_break [OF n]
              split_lines_break [OF b] split_lines_single [OF t])
      with None show ?thesis by simp
    next
      case (Some v)
      with s have v: "CHR 0x0A \<notin> set (''  Serving: '' @ str v)"
        by (simp add: single_line_fields_def shown_fields_def field_text_def)
      have "split_lines (?i @ CHR 0x0A # ?n @ CHR 0x0A # ?b @ CHR 0x0A # ?t @ CHR 0x0A # ''  Serving: '' @ str v)
          = [?i, ?n, ?b, ?t, ''  Serving: '' @ str v]"
        by (simp only: split_lines_break [OF i] split_lines_break [OF n]
              split_lines_break [OF b] split_lines_break [OF t] split_lines_single [OF v])
      with Some show ?thesis by simp
    qed
  qed
  have "list_ex serving_line (split_lines ?out) \<longleftrightarrow> product ''serving_size'' \<noteq> None"
    if s: "single_line_fields str product"
    unfolding lines [OF s]
    by (cases "product ''serving_size''") (simp_all add: serving_line_def)
  note iff = this
  show ?thesis
    apply (rule exI [of _ "?out"])
    apply (intro conjI impI)
       apply (rule out)
      apply (simp only: append_assoc)
     apply (erule lines)
    apply (erule iff)
    done
qed


text \<open>The theorem at a product with an identifier and a serving size.\<close>

theorem format_product_placeholder_witness:
  "single_line_fields example_str example_product
   \<and> format_product example_str example_product
       = Inr (''  ID: 17'' @ [CHR 0x0A] @ ''  Name: N/A'' @ [CHR 0x0A] @ ''  Brand: N/A''
              @ [CHR 0x0A] @ ''  Type: N/A'' @ [CHR 0x0A] @ ''  Serving: 1 softgel'')
   \<and> map_sum id split_lines (format_product example_str example_product)
       = Inr [''  ID: 17'', ''  Name: N/A'', ''  Brand: N/A'', ''  Type: N/A'',
              ''  Serving: 1 softgel'']"
proof -
  have s: "single_line_fields example_str example_product"
    by (simp add: single_line_fields_def shown_fields_def field_text_def example_product_def)
  from format_product_placeholder [of example_str example_product] s
  show ?thesis
    by (auto simp: field_text_def example_product_def)
qed

text \<open>
  The claim as worded fails on the emitted text: a product without the key
  \<open>serving_size\<close> whose name contains a line break followed by \<open>Serving: fake\<close> is shown
  with a Serving line.
\<close>

theorem format_product_injected_counterexample:
  "injected_product ''serving_size'' = None
   \<and> map_sum id split_lines (format_product example_str injected_product)
       = Inr [''  ID: N/A'', ''  Name: X'', ''  Serving: fake'', ''  Brand: N/A'', ''  Type: N/A'']
   \<and> list_ex serving_line [''  ID: N/A'', ''  Name: X'', ''  Serving: fake'', ''  Brand: N/A'',
                           ''  Type: N/A'']"
  by (simp add: format_product_def format_product_lines_def get_str_def injected_product_def
        newline_def serving_line_def)

end
